theory Spec2Isabelle
  imports Complex_Main
begin

section \<open>Vision Transformer: a shallow embedding of the model-definition cells\<close>

text \<open>
  The notebook defines five modules (\<open>PatchEmbedding\<close>, \<open>Position_Encoding\<close>,
  \<open>MultiHeadSelfAttention\<close>, \<open>TransformerEncoder\<close>, \<open>VisionTransformer\<close>), each with a
  constructor \<open>__init__\<close> and a \<open>forward\<close> method. Every constructor is embedded as a
  function \<open>X_init\<close> and every forward method as a function \<open>X_forward\<close>.

  Conventions of the embedding:
  \<^item> Python integers are \<open>int\<close>; \<open>//\<close> and \<open>%\<close> are \<open>div\<close> and \<open>mod\<close> on \<open>int\<close> (both
    round towards minus infinity), with the \<open>ZeroDivisionError\<close> written out.
  \<^item> Tensor entries are real numbers: the arithmetic is exact, rounding of 32-bit floats is
    not modelled.
  \<^item> A tensor of rank \<open>n\<close> is a rectangular \<open>n\<close>-fold nested list in row-major order. The
    size of a dimension is read off the first element of the enclosing level, so an inner
    size below an empty level reads as \<open>0\<close>.
  \<^item> A raised exception is a value \<open>Inl e\<close>; a returned tensor is \<open>Inr t\<close>.
  \<^item> Library operations of the tensor framework that the source calls (\<open>unfold\<close>, \<open>view\<close>,
    \<open>permute\<close>, \<open>expand\<close>, \<open>cat\<close>, broadcasting \<open>+\<close>, \<open>matmul\<close>, \<open>softmax\<close>, \<open>nn.Linear\<close>,
    \<open>nn.LayerNorm\<close>, \<open>nn.Dropout\<close>, \<open>F.gelu\<close>) are written out with the shape checks they
    perform.
  \<^item> The random draws of parameter initialisation are an explicit argument \<open>rnd\<close>, a family
    of reals indexed by a path; the random masks of dropout are explicit arguments too.
  \<^item> The limits of the machine are not modelled: a tensor of any non-negative size is
    allocated. A constructor that returns \<open>Inr\<close> here returns in the source provided that its
    tensors fit the 64-bit sizes and the memory of the machine; what the library raises
    otherwise is left out.
\<close>

subsection \<open>Errors and tensors\<close>

datatype error = ZeroDivisionError | AssertionError | RuntimeError | ValueError | IndexError

text \<open>Sequencing: the first raised exception ends the computation.\<close>

definition andthen :: "error + 'a \<Rightarrow> ('a \<Rightarrow> error + 'b) \<Rightarrow> error + 'b" where
  "andthen r f = (case r of Inl e \<Rightarrow> Inl e | Inr a \<Rightarrow> f a)"

fun sequence :: "(error + 'a) list \<Rightarrow> error + 'a list" where
  "sequence [] = Inr []"
| "sequence (r # rs) = andthen r (\<lambda>a. andthen (sequence rs) (\<lambda>as. Inr (a # as)))"

type_synonym tensor1 = "real list"
type_synonym tensor2 = "real list list"
type_synonym tensor3 = "real list list list"
type_synonym tensor4 = "real list list list list"
type_synonym tensor5 = "real list list list list list"
type_synonym tensor6 = "real list list list list list list"

type_synonym rand = "nat list \<Rightarrow> real"

definition sub :: "nat \<Rightarrow> rand \<Rightarrow> rand" where
  "sub k rnd = (\<lambda>idx. rnd (k # idx))"

text \<open>\<open>x.size(d)\<close> for \<open>d = 1 .. 4\<close>; \<open>x.size(0)\<close> is \<open>length x\<close>.\<close>

definition size1 :: "'a list list \<Rightarrow> nat" where
  "size1 x = (case x of [] \<Rightarrow> 0 | a # _ \<Rightarrow> length a)"

definition size2 :: "'a list list list \<Rightarrow> nat" where
  "size2 x = (case x of [] \<Rightarrow> 0 | a # _ \<Rightarrow> size1 a)"

definition size3 :: "'a list list list list \<Rightarrow> nat" where
  "size3 x = (case x of [] \<Rightarrow> 0 | a # _ \<Rightarrow> size2 a)"

definition size4 :: "'a list list list list list \<Rightarrow> nat" where
  "size4 x = (case x of [] \<Rightarrow> 0 | a # _ \<Rightarrow> size3 a)"

text \<open>Shape predicates: \<open>shape3 b s e x\<close> says that \<open>x\<close> is a tensor of shape \<open>[b, s, e]\<close>.\<close>

definition shape2 :: "nat \<Rightarrow> nat \<Rightarrow> 'a list list \<Rightarrow> bool" where
  "shape2 r c x = (length x = r \<and> list_all (\<lambda>v. length v = c) x)"

definition shape3 :: "nat \<Rightarrow> nat \<Rightarrow> nat \<Rightarrow> 'a list list list \<Rightarrow> bool" where
  "shape3 b s e x = (length x = b \<and> list_all (shape2 s e) x)"

definition shape4 :: "nat \<Rightarrow> nat \<Rightarrow> nat \<Rightarrow> nat \<Rightarrow> 'a list list list list \<Rightarrow> bool" where
  "shape4 b c h w x = (length x = b \<and> list_all (shape3 c h w) x)"

subsection \<open>Library operations on tensors\<close>

text \<open>
  \<open>rows cnt n xs\<close> cuts the flat row-major data \<open>xs\<close> into \<open>cnt\<close> consecutive rows of \<open>n\<close>
  entries: the reinterpretation that \<open>view\<close> performs on contiguous data.
\<close>

definition rows :: "nat \<Rightarrow> nat \<Rightarrow> 'a list \<Rightarrow> 'a list list" where
  "rows cnt n xs = map (\<lambda>i. take n (drop (i * n) xs)) [0..<cnt]"

text \<open>
  \<open>x.unfold(2, size, step)\<close> on a rank-4 tensor \<open>[B, C, H, W]\<close>: the result has shape
  \<open>[B, C, (H - size) div step + 1, W, size]\<close> and entry \<open>[b, c, i, w, u]\<close> is
  \<open>x[b, c, i * step + u, w]\<close>. It raises when \<open>size\<close> exceeds \<open>H\<close> or \<open>step\<close> is not positive.
\<close>

definition unfold_dim2 :: "int \<Rightarrow> int \<Rightarrow> tensor4 \<Rightarrow> error + tensor5" where
  "unfold_dim2 sz step x =
     (let height = size2 x; width = size3 x in
      if sz < 0 \<or> int height < sz \<or> step \<le> 0 then Inl RuntimeError
      else Inr (map (map (\<lambda>m.
             map (\<lambda>i. map (\<lambda>w. map (\<lambda>u. m ! (i * nat step + u) ! w) [0..<nat sz]) [0..<width])
                 [0..<(height - nat sz) div nat step + 1])) x))"

text \<open>
  \<open>x.unfold(3, size, step)\<close> on a rank-5 tensor \<open>[B, C, N, W, U]\<close>: the result has shape
  \<open>[B, C, N, (W - size) div step + 1, U, size]\<close> and entry \<open>[b, c, i, j, u, v]\<close> is
  \<open>x[b, c, i, j * step + v, u]\<close>.
\<close>

definition unfold_dim3 :: "int \<Rightarrow> int \<Rightarrow> tensor5 \<Rightarrow> error + tensor6" where
  "unfold_dim3 sz step x =
     (let width = size3 x; usize = size4 x in
      if sz < 0 \<or> int width < sz \<or> step \<le> 0 then Inl RuntimeError
      else Inr (map (map (map (\<lambda>y.
             map (\<lambda>j. map (\<lambda>u. map (\<lambda>v. y ! (j * nat step + v) ! u) [0..<nat sz]) [0..<usize])
                 [0..<(width - nat sz) div nat step + 1]))) x))"

text \<open>
  \<open>x.contiguous().view(d0, d1, -1, d3)\<close> on a rank-6 tensor: the flat data is regrouped; the
  size of the \<open>-1\<close> dimension is inferred, which fails when the other sizes multiply to \<open>0\<close> or
  do not divide the number of entries.
\<close>

definition view_4 :: "nat \<Rightarrow> nat \<Rightarrow> nat \<Rightarrow> tensor6 \<Rightarrow> error + tensor4" where
  "view_4 d0 d1 d3 x =
     (let flat = concat (concat (concat (concat (concat x))));
          numel = length flat; newsize = d0 * d1 * d3 in
      if newsize = 0 \<or> numel mod newsize \<noteq> 0 then Inl RuntimeError
      else let d2 = numel div newsize in
        Inr (map (map (rows d2 d3)) (map (rows d1 (d2 * d3)) (rows d0 (d1 * (d2 * d3)) flat))))"

text \<open>\<open>x.permute(0, 2, 1, 3)\<close>: the two middle dimensions are exchanged.\<close>

definition permute_0213 :: "'a list list list \<Rightarrow> 'a list list list" where
  "permute_0213 x =
     map (\<lambda>xb. map (\<lambda>j. map (\<lambda>i. xb ! i ! j) [0..<length xb]) [0..<size1 xb]) x"

text \<open>\<open>x.contiguous().view(d0, d1, -1)\<close> on a rank-4 tensor.\<close>

definition view_3 :: "nat \<Rightarrow> int \<Rightarrow> tensor4 \<Rightarrow> error + tensor3" where
  "view_3 d0 d1 x =
     (let flat = concat (concat (concat x)); numel = length flat; newsize = int d0 * d1 in
      if d1 < 0 \<or> newsize = 0 \<or> int numel mod newsize \<noteq> 0 then Inl RuntimeError
      else let d2 = numel div nat newsize in
        Inr (map (rows (nat d1) d2) (rows d0 (nat d1 * d2) flat)))"

text \<open>
  \<open>x.view(d0, d1, d2, d3)\<close> on a rank-3 tensor and \<open>x.contiguous().view(d0, d1, d2)\<close> on a
  rank-4 tensor, all sizes given: a negative size or a different number of entries raises.
\<close>

definition view_heads :: "nat \<Rightarrow> nat \<Rightarrow> int \<Rightarrow> int \<Rightarrow> tensor3 \<Rightarrow> error + tensor4" where
  "view_heads d0 d1 d2 d3 x =
     (let flat = concat (concat x) in
      if d2 < 0 \<or> d3 < 0 \<or> int (length flat) \<noteq> int d0 * int d1 * d2 * d3 then Inl RuntimeError
      else Inr (map (map (rows (nat d2) (nat d3)))
                  (map (rows d1 (nat d2 * nat d3)) (rows d0 (d1 * (nat d2 * nat d3)) flat))))"

definition view_merge :: "nat \<Rightarrow> nat \<Rightarrow> nat \<Rightarrow> tensor4 \<Rightarrow> error + tensor3" where
  "view_merge d0 d1 d2 x =
     (let flat = concat (concat (concat x)) in
      if length flat \<noteq> d0 * d1 * d2 then Inl RuntimeError
      else Inr (map (rows d1 d2) (rows d0 (d1 * d2) flat)))"

text \<open>
  \<open>t.expand(n, -1, -1)\<close>: a leading dimension of size \<open>1\<close> is repeated \<open>n\<close> times; any other
  leading size must already be \<open>n\<close>.
\<close>

definition expand0 :: "nat \<Rightarrow> 'a list \<Rightarrow> error + 'a list" where
  "expand0 n t = (case t of [a] \<Rightarrow> Inr (replicate n a)
                  | _ \<Rightarrow> if length t = n then Inr t else Inl RuntimeError)"

text \<open>\<open>torch.cat((a, b), dim=1)\<close> on rank-3 tensors: the other two sizes must agree.\<close>

definition cat1 :: "tensor3 \<Rightarrow> tensor3 \<Rightarrow> error + tensor3" where
  "cat1 a b = (if length a = length b \<and> size2 a = size2 b
               then Inr (map (\<lambda>(u, v). u @ v) (zip a b)) else Inl RuntimeError)"

text \<open>
  \<open>a + b\<close> on rank-3 tensors, with broadcasting: two sizes are compatible when they are equal
  or one of them is \<open>1\<close>, and a dimension of size \<open>1\<close> is read at index \<open>0\<close> throughout.
\<close>

definition broadcastable :: "nat \<Rightarrow> nat \<Rightarrow> bool" where
  "broadcastable a b = (a = b \<or> a = 1 \<or> b = 1)"

definition bdim :: "nat \<Rightarrow> nat \<Rightarrow> nat" where
  "bdim a b = (if a = 1 then b else a)"

definition bidx :: "nat \<Rightarrow> nat \<Rightarrow> nat" where
  "bidx a i = (if a = 1 then 0 else i)"

definition add3 :: "tensor3 \<Rightarrow> tensor3 \<Rightarrow> error + tensor3" where
  "add3 a b =
     (let a0 = length a; a1 = size1 a; a2 = size2 a;
          b0 = length b; b1 = size1 b; b2 = size2 b in
      if broadcastable a0 b0 \<and> broadcastable a1 b1 \<and> broadcastable a2 b2
      then Inr (map (\<lambda>i. map (\<lambda>j. map (\<lambda>k.
               a ! bidx a0 i ! bidx a1 j ! bidx a2 k + b ! bidx b0 i ! bidx b1 j ! bidx b2 k)
             [0..<bdim a2 b2]) [0..<bdim a1 b1]) [0..<bdim a0 b0])
      else Inl RuntimeError)"

text \<open>\<open>x[:, 0]\<close> on a rank-3 tensor.\<close>

definition select_1_0 :: "tensor3 \<Rightarrow> error + tensor2" where
  "select_1_0 x = (if size1 x = 0 then Inl IndexError else Inr (map (\<lambda>m. m ! 0) x))"

text \<open>
  \<open>torch.matmul(a, b.transpose(-2, -1))\<close> and \<open>torch.matmul(a, b)\<close> on the matrices of a
  batch; the batch dimensions of both arguments are the same at both call sites.
\<close>

definition dot :: "tensor1 \<Rightarrow> tensor1 \<Rightarrow> real" where
  "dot u v = sum_list (map (\<lambda>(a, b). a * b) (zip u v))"

definition transpose_last2 :: "tensor2 \<Rightarrow> tensor2" where
  "transpose_last2 m = map (\<lambda>j. map (\<lambda>r. r ! j) m) [0..<size1 m]"

definition matmul2 :: "tensor2 \<Rightarrow> tensor2 \<Rightarrow> tensor2" where
  "matmul2 a b = map (\<lambda>r. map (\<lambda>j. dot r (map (\<lambda>c. c ! j) b)) [0..<size1 b]) a"

definition matmul :: "tensor4 \<Rightarrow> tensor4 \<Rightarrow> tensor4" where
  "matmul a b = map (\<lambda>(ab, bb). map (\<lambda>(ah, bh). matmul2 ah bh) (zip ab bb)) (zip a b)"

definition transpose_m2_m1 :: "tensor4 \<Rightarrow> tensor4" where
  "transpose_m2_m1 x = map (map transpose_last2) x"

text \<open>\<open>torch.softmax(x, dim=-1)\<close>.\<close>

definition softmax1 :: "tensor1 \<Rightarrow> tensor1" where
  "softmax1 v = map (\<lambda>a. exp a / sum_list (map exp v)) v"

definition softmax :: "tensor4 \<Rightarrow> tensor4" where
  "softmax x = map (map (map softmax1)) x"

text \<open>
  \<open>F.gelu(x)\<close> is \<open>x * \<Phi>(x)\<close> with \<open>\<Phi>\<close> the standard normal distribution function,
  \<open>\<Phi>(x) = (1 + erf (x / sqrt 2)) / 2\<close>; \<open>erf\<close> is given by its power series.
\<close>

definition erf :: "real \<Rightarrow> real" where
  "erf x = 2 / sqrt pi * (\<Sum>n. (- 1) ^ n * x ^ (2 * n + 1) / (fact n * real (2 * n + 1)))"

definition gelu1 :: "real \<Rightarrow> real" where
  "gelu1 x = x * ((1 + erf (x / sqrt 2)) / 2)"

definition gelu :: "tensor3 \<Rightarrow> tensor3" where
  "gelu x = map (map (map gelu1)) x"

subsection \<open>\<open>nn.Linear\<close>, \<open>nn.LayerNorm\<close>, \<open>nn.Dropout\<close>\<close>

record Linear =
  in_features :: nat
  out_features :: nat
  lin_weight :: tensor2
  lin_bias :: tensor1

text \<open>
  \<open>nn.Linear(n_in, n_out)\<close> allocates a weight of shape \<open>[n_out, n_in]\<close> and a bias of
  shape \<open>[n_out]\<close> and fills both with random draws; a negative size raises. A size too large
  to allocate raises in the library as well; that is not modelled.
\<close>

definition Linear_init :: "int \<Rightarrow> int \<Rightarrow> rand \<Rightarrow> error + Linear" where
  "Linear_init n_in n_out rnd =
     (if n_in < 0 \<or> n_out < 0 then Inl RuntimeError
      else Inr \<lparr>in_features = nat n_in, out_features = nat n_out,
                lin_weight = map (\<lambda>r. map (\<lambda>c. rnd [0, r, c]) [0..<nat n_in]) [0..<nat n_out],
                lin_bias = map (\<lambda>r. rnd [1, r]) [0..<nat n_out]\<rparr>)"

text \<open>One token: \<open>W \<cdot> v + b\<close>.\<close>

definition affine :: "Linear \<Rightarrow> tensor1 \<Rightarrow> tensor1" where
  "affine l v = map (\<lambda>(r, b). dot r v + b) (zip (lin_weight l) (lin_bias l))"

text \<open>The layer acts on the last dimension, whose size must be \<open>in_features\<close>.\<close>

definition Linear_forward2 :: "Linear \<Rightarrow> tensor2 \<Rightarrow> error + tensor2" where
  "Linear_forward2 l x =
     (if list_all (\<lambda>v. length v = in_features l) x then Inr (map (affine l) x)
      else Inl RuntimeError)"

definition Linear_forward :: "Linear \<Rightarrow> tensor3 \<Rightarrow> error + tensor3" where
  "Linear_forward l x =
     (if list_all (list_all (\<lambda>v. length v = in_features l)) x then Inr (map (map (affine l)) x)
      else Inl RuntimeError)"

record LayerNorm =
  normalized_shape :: nat
  eps :: real
  ln_weight :: tensor1
  ln_bias :: tensor1

definition LayerNorm_init :: "int \<Rightarrow> error + LayerNorm" where
  "LayerNorm_init n =
     (if n < 0 then Inl RuntimeError
      else Inr \<lparr>normalized_shape = nat n, eps = 1 / 100000,
                ln_weight = replicate (nat n) 1, ln_bias = replicate (nat n) 0\<rparr>)"

definition mean :: "tensor1 \<Rightarrow> real" where
  "mean v = sum_list v / real (length v)"

definition var :: "tensor1 \<Rightarrow> real" where
  "var v = sum_list (map (\<lambda>a. (a - mean v)\<^sup>2) v) / real (length v)"

definition layer_norm1 :: "LayerNorm \<Rightarrow> tensor1 \<Rightarrow> tensor1" where
  "layer_norm1 nrm v =
     map (\<lambda>(a, (w, b)). (a - mean v) / sqrt (var v + eps nrm) * w + b)
         (zip v (zip (ln_weight nrm) (ln_bias nrm)))"

definition LayerNorm_forward :: "LayerNorm \<Rightarrow> tensor3 \<Rightarrow> error + tensor3" where
  "LayerNorm_forward nrm x =
     (if list_all (list_all (\<lambda>v. length v = normalized_shape nrm)) x
      then Inr (map (map (layer_norm1 nrm)) x) else Inl RuntimeError)"

record Dropout =
  dropout_p :: real

definition Dropout_init :: "real \<Rightarrow> error + Dropout" where
  "Dropout_init pr = (if pr < 0 \<or> 1 < pr then Inl ValueError else Inr \<lparr>dropout_p = pr\<rparr>)"

text \<open>
  In evaluation mode dropout is the identity. In training mode entry \<open>[i, j, k]\<close> is kept
  and scaled by \<open>1 / (1 - p)\<close> when the random mask \<open>keep i j k\<close> holds and zeroed otherwise;
  \<open>p = 0\<close> keeps everything and \<open>p = 1\<close> zeroes everything.
\<close>

type_synonym mask = "nat \<Rightarrow> nat \<Rightarrow> nat \<Rightarrow> bool"

definition Dropout_forward :: "Dropout \<Rightarrow> bool \<Rightarrow> mask \<Rightarrow> tensor3 \<Rightarrow> tensor3" where
  "Dropout_forward d training keep x =
     (if \<not> training \<or> dropout_p d = 0 then x
      else map (\<lambda>(i, m). map (\<lambda>(j, v). map (\<lambda>(k, a).
             if dropout_p d \<noteq> 1 \<and> keep i j k then a / (1 - dropout_p d) else 0)
           (zip [0..<length v] v)) (zip [0..<length m] m)) (zip [0..<length x] x))"


text \<open>
  \<open>torch.randn(d0, d1, d2)\<close>: a tensor of random draws; a negative size raises. A size too
  large to allocate raises in the library as well; that is not modelled.
\<close>

definition randn :: "int \<Rightarrow> int \<Rightarrow> int \<Rightarrow> rand \<Rightarrow> error + tensor3" where
  "randn d0 d1 d2 rnd =
     (if d0 < 0 \<or> d1 < 0 \<or> d2 < 0 then Inl RuntimeError
      else Inr (map (\<lambda>i. map (\<lambda>j. map (\<lambda>k. rnd [i, j, k]) [0..<nat d2]) [0..<nat d1])
                    [0..<nat d0]))"

subsection \<open>\<open>PatchEmbedding\<close>\<close>

record PatchEmbedding =
  pe_patch_size :: int
  pe_embed_dim :: int
  pe_projection :: Linear

definition PatchEmbedding_init :: "int \<Rightarrow> int \<Rightarrow> int \<Rightarrow> rand \<Rightarrow> error + PatchEmbedding" where
  "PatchEmbedding_init patch_size in_channels embed_dim rnd =
     andthen (Linear_init (in_channels * patch_size * patch_size) embed_dim rnd) (\<lambda>l.
     Inr \<lparr>pe_patch_size = patch_size, pe_embed_dim = embed_dim, pe_projection = l\<rparr>)"

definition PatchEmbedding_forward :: "PatchEmbedding \<Rightarrow> tensor4 \<Rightarrow> error + tensor3" where
  "PatchEmbedding_forward self x =
     (let batch_size = length x; in_channels = size1 x; height = size2 x; width = size3 x in
      if pe_patch_size self = 0 then Inl ZeroDivisionError
      else
        let n_patches = (int height div pe_patch_size self) * (int width div pe_patch_size self) in
        andthen (unfold_dim2 (pe_patch_size self) (pe_patch_size self) x) (\<lambda>x1.
        andthen (unfold_dim3 (pe_patch_size self) (pe_patch_size self) x1) (\<lambda>x2.
        andthen (view_4 batch_size in_channels (nat (pe_patch_size self * pe_patch_size self)) x2)
          (\<lambda>x3.
        andthen (view_3 batch_size n_patches (permute_0213 x3)) (\<lambda>x4.
        Linear_forward (pe_projection self) x4)))))"

subsection \<open>\<open>Position_Encoding\<close>\<close>

record Position_Encoding =
  pos_position_encoding :: tensor3

definition Position_Encoding_init :: "int \<Rightarrow> int \<Rightarrow> rand \<Rightarrow> error + Position_Encoding" where
  "Position_Encoding_init embed_dim n_patches rnd =
     andthen (randn 1 (n_patches + 1) embed_dim rnd) (\<lambda>t.
     Inr \<lparr>pos_position_encoding = t\<rparr>)"

definition Position_Encoding_forward :: "Position_Encoding \<Rightarrow> tensor3 \<Rightarrow> error + tensor3" where
  "Position_Encoding_forward self x = add3 x (pos_position_encoding self)"

subsection \<open>\<open>MultiHeadSelfAttention\<close>\<close>

record MultiHeadSelfAttention =
  attn_num_heads :: int
  attn_embed_dim :: int
  attn_head_dim :: int
  attn_query :: Linear
  attn_key :: Linear
  attn_value :: Linear
  attn_out :: Linear

definition MultiHeadSelfAttention_init ::
  "int \<Rightarrow> int \<Rightarrow> rand \<Rightarrow> error + MultiHeadSelfAttention" where
  "MultiHeadSelfAttention_init embed_dim num_heads rnd =
     (if num_heads = 0 then Inl ZeroDivisionError
      else if embed_dim mod num_heads \<noteq> 0 then Inl AssertionError
      else
        andthen (Linear_init embed_dim embed_dim (sub 0 rnd)) (\<lambda>lq.
        andthen (Linear_init embed_dim embed_dim (sub 1 rnd)) (\<lambda>lk.
        andthen (Linear_init embed_dim embed_dim (sub 2 rnd)) (\<lambda>lv.
        andthen (Linear_init embed_dim embed_dim (sub 3 rnd)) (\<lambda>lo.
        Inr \<lparr>attn_num_heads = num_heads, attn_embed_dim = embed_dim,
             attn_head_dim = embed_dim div num_heads,
             attn_query = lq, attn_key = lk, attn_value = lv, attn_out = lo\<rparr>)))))"

text \<open>
  The three projections as \<open>forward\<close> computes them: \<open>Q = self.query(x)\<close>,
  \<open>K = self.query(x)\<close>, \<open>V = self.query(x)\<close>.
\<close>

definition forward_Q :: "MultiHeadSelfAttention \<Rightarrow> tensor3 \<Rightarrow> error + tensor3" where
  "forward_Q self x = Linear_forward (attn_query self) x"

definition forward_K :: "MultiHeadSelfAttention \<Rightarrow> tensor3 \<Rightarrow> error + tensor3" where
  "forward_K self x = Linear_forward (attn_query self) x"

definition forward_V :: "MultiHeadSelfAttention \<Rightarrow> tensor3 \<Rightarrow> error + tensor3" where
  "forward_V self x = Linear_forward (attn_query self) x"

text \<open>Division of every entry by a scalar tensor.\<close>

definition div_scalar :: "tensor4 \<Rightarrow> real \<Rightarrow> tensor4" where
  "div_scalar x c = map (map (map (map (\<lambda>a. a / c)))) x"

text \<open>
  \<open>scores\<close> and \<open>attention\<close> of \<open>forward\<close>, from the per-head tensors \<open>Q\<close> and \<open>K\<close> of shape
  \<open>[batch, num_heads, n_patches, head_dim]\<close>.
\<close>

definition forward_scores :: "MultiHeadSelfAttention \<Rightarrow> tensor4 \<Rightarrow> tensor4 \<Rightarrow> tensor4" where
  "forward_scores self Q K =
     div_scalar (matmul Q (transpose_m2_m1 K)) (sqrt (real_of_int (attn_head_dim self)))"

definition forward_attention :: "MultiHeadSelfAttention \<Rightarrow> tensor4 \<Rightarrow> tensor4 \<Rightarrow> tensor4" where
  "forward_attention self Q K = softmax (forward_scores self Q K)"

definition MultiHeadSelfAttention_forward ::
  "MultiHeadSelfAttention \<Rightarrow> tensor3 \<Rightarrow> error + tensor3" where
  "MultiHeadSelfAttention_forward self x =
     (let batch_size = length x; n_patches = size1 x; embed_dim = size2 x in
      andthen (forward_Q self x) (\<lambda>Q0.
      andthen (forward_K self x) (\<lambda>K0.
      andthen (forward_V self x) (\<lambda>V0.
      andthen (view_heads batch_size n_patches (attn_num_heads self) (attn_head_dim self) Q0)
        (\<lambda>Q1.
      andthen (view_heads batch_size n_patches (attn_num_heads self) (attn_head_dim self) K0)
        (\<lambda>K1.
      andthen (view_heads batch_size n_patches (attn_num_heads self) (attn_head_dim self) V0)
        (\<lambda>V1.
      let Q = permute_0213 Q1; K = permute_0213 K1; V = permute_0213 V1;
          attention = forward_attention self Q K;
          out = matmul attention V in
      andthen (view_merge batch_size n_patches embed_dim (permute_0213 out)) (\<lambda>out1.
      Linear_forward (attn_out self) out1))))))))"

subsection \<open>\<open>TransformerEncoder\<close>\<close>

record TransformerEncoder =
  enc_self_attn :: MultiHeadSelfAttention
  enc_linear1 :: Linear
  enc_dropout :: Dropout
  enc_linear2 :: Linear
  enc_norm1 :: LayerNorm
  enc_norm2 :: LayerNorm
  enc_dropout1 :: Dropout
  enc_dropout2 :: Dropout

text \<open>The default value of the constructor's parameter \<open>dropout\<close>.\<close>

definition dropout_default :: real where
  "dropout_default = 1 / 10"

definition TransformerEncoder_init ::
  "int \<Rightarrow> int \<Rightarrow> int \<Rightarrow> real \<Rightarrow> rand \<Rightarrow> error + TransformerEncoder" where
  "TransformerEncoder_init embed_dim num_heads mlp_dim dropout rnd =
     andthen (MultiHeadSelfAttention_init embed_dim num_heads (sub 0 rnd)) (\<lambda>a.
     andthen (Linear_init embed_dim mlp_dim (sub 1 rnd)) (\<lambda>l1.
     andthen (Dropout_init dropout) (\<lambda>d.
     andthen (Linear_init mlp_dim embed_dim (sub 2 rnd)) (\<lambda>l2.
     andthen (LayerNorm_init embed_dim) (\<lambda>n1.
     andthen (LayerNorm_init embed_dim) (\<lambda>n2.
     andthen (Dropout_init dropout) (\<lambda>d1.
     andthen (Dropout_init dropout) (\<lambda>d2.
     Inr \<lparr>enc_self_attn = a, enc_linear1 = l1, enc_dropout = d, enc_linear2 = l2,
          enc_norm1 = n1, enc_norm2 = n2, enc_dropout1 = d1, enc_dropout2 = d2\<rparr>))))))))"

text \<open>The random masks of one call of an encoder block, one for each dropout layer.\<close>

record masks =
  keep_dropout1 :: mask
  keep_dropout :: mask
  keep_dropout2 :: mask

definition TransformerEncoder_forward ::
  "TransformerEncoder \<Rightarrow> bool \<Rightarrow> masks \<Rightarrow> tensor3 \<Rightarrow> error + tensor3" where
  "TransformerEncoder_forward self training ms x =
     andthen (MultiHeadSelfAttention_forward (enc_self_attn self) x) (\<lambda>attn_out.
     andthen (add3 x (Dropout_forward (enc_dropout1 self) training (keep_dropout1 ms) attn_out))
       (\<lambda>x1.
     andthen (LayerNorm_forward (enc_norm1 self) x1) (\<lambda>x2.
     andthen (Linear_forward (enc_linear1 self) x2) (\<lambda>h.
     andthen (Linear_forward (enc_linear2 self)
                (Dropout_forward (enc_dropout self) training (keep_dropout ms) (gelu h)))
       (\<lambda>ff_out.
     andthen (add3 x2 (Dropout_forward (enc_dropout2 self) training (keep_dropout2 ms) ff_out))
       (\<lambda>x3.
     LayerNorm_forward (enc_norm2 self) x3))))))"

subsection \<open>\<open>VisionTransformer\<close>\<close>

record VisionTransformer =
  vit_patch_size :: int
  vit_patch_embedding :: PatchEmbedding
  vit_position_encoding :: Position_Encoding
  vit_classification_token :: tensor3
  vit_transformer_encoders :: "TransformerEncoder list"
  vit_classifier :: Linear

definition VisionTransformer_init ::
  "int \<Rightarrow> int \<Rightarrow> int \<Rightarrow> int \<Rightarrow> int \<Rightarrow> int \<Rightarrow> int \<Rightarrow> int \<Rightarrow> rand \<Rightarrow> error + VisionTransformer" where
  "VisionTransformer_init img_size in_channels patch_size embed_dim mlp_dim num_heads num_layers
       num_classes rnd =
     (if patch_size = 0 then Inl ZeroDivisionError
      else
        let n_patches = (img_size div patch_size) * (img_size div patch_size) in
        andthen (PatchEmbedding_init patch_size in_channels embed_dim (sub 0 rnd)) (\<lambda>pe.
        andthen (Position_Encoding_init embed_dim n_patches (sub 1 rnd)) (\<lambda>pos.
        andthen (randn 1 1 embed_dim (sub 2 rnd)) (\<lambda>cls.
        andthen (sequence (map (\<lambda>k. TransformerEncoder_init embed_dim num_heads mlp_dim
                                      dropout_default (sub k (sub 3 rnd)))
                               [0..<nat num_layers])) (\<lambda>encs.
        andthen (Linear_init embed_dim num_classes (sub 4 rnd)) (\<lambda>cl.
        Inr \<lparr>vit_patch_size = patch_size, vit_patch_embedding = pe,
             vit_position_encoding = pos, vit_classification_token = cls,
             vit_transformer_encoders = encs, vit_classifier = cl\<rparr>))))))"

text \<open>
  The token sequence that enters the encoder stack: patch embedding, class token expanded to
  the batch and concatenated in front, positional encoding added.
\<close>

definition forward_tokens :: "VisionTransformer \<Rightarrow> tensor4 \<Rightarrow> error + tensor3" where
  "forward_tokens self x =
     andthen (PatchEmbedding_forward (vit_patch_embedding self) x) (\<lambda>x1.
     let batch_size = length x1 in
     andthen (expand0 batch_size (vit_classification_token self)) (\<lambda>cls_tokens.
     andthen (cat1 cls_tokens x1) (\<lambda>x2.
     Position_Encoding_forward (vit_position_encoding self) x2)))"

text \<open>
  The loop \<open>for layer in self.transformer_encoders: x = layer(x)\<close>; the \<open>k\<close>-th layer draws the
  masks \<open>ms k\<close>.
\<close>

fun forward_layers ::
  "TransformerEncoder list \<Rightarrow> bool \<Rightarrow> (nat \<Rightarrow> masks) \<Rightarrow> nat \<Rightarrow> tensor3 \<Rightarrow> error + tensor3" where
  "forward_layers [] training ms k x = Inr x"
| "forward_layers (layer # layers) training ms k x =
     andthen (TransformerEncoder_forward layer training (ms k) x) (\<lambda>x'.
     forward_layers layers training ms (Suc k) x')"

definition VisionTransformer_forward ::
  "VisionTransformer \<Rightarrow> bool \<Rightarrow> (nat \<Rightarrow> masks) \<Rightarrow> tensor4 \<Rightarrow> error + tensor2" where
  "VisionTransformer_forward self training ms x =
     andthen (forward_tokens self x) (\<lambda>x1.
     andthen (forward_layers (vit_transformer_encoders self) training ms 0 x1) (\<lambda>x2.
     andthen (select_1_0 x2) (\<lambda>cls_token_out.
     Linear_forward2 (vit_classifier self) cls_token_out)))"

subsection \<open>Auxiliary notions for the properties\<close>

text \<open>Shapes of rank 5 and 6, for the intermediate tensors of the patch extraction.\<close>

definition shape5 :: "nat \<Rightarrow> nat \<Rightarrow> nat \<Rightarrow> nat \<Rightarrow> nat \<Rightarrow> 'a list list list list list \<Rightarrow> bool" where
  "shape5 a b c d e x = (length x = a \<and> list_all (shape4 b c d e) x)"

definition shape6 ::
  "nat \<Rightarrow> nat \<Rightarrow> nat \<Rightarrow> nat \<Rightarrow> nat \<Rightarrow> nat \<Rightarrow> 'a list list list list list list \<Rightarrow> bool" where
  "shape6 a b c d e f x = (length x = a \<and> list_all (shape5 b c d e f) x)"

text \<open>
  The patch in row \<open>i\<close> and column \<open>j\<close> of the patch grid of an image \<open>img\<close> (a tensor
  \<open>[channels, height, width]\<close>), flattened: channel by channel, and within a channel row by
  row.
\<close>

definition flatten_patch :: "nat \<Rightarrow> tensor3 \<Rightarrow> nat \<Rightarrow> nat \<Rightarrow> tensor1" where
  "flatten_patch ps img i j =
     concat (map (\<lambda>m. concat (map (\<lambda>u. map (\<lambda>v. m ! (i * ps + u) ! (j * ps + v)) [0..<ps]) [0..<ps]))
       img)"

text \<open>
  The patches of one channel as the two calls of \<open>unfold\<close> lay them out: a tensor
  \<open>[nh, nw, ps, ps]\<close>.
\<close>

definition windows :: "nat \<Rightarrow> nat \<Rightarrow> nat \<Rightarrow> tensor2 \<Rightarrow> tensor4" where
  "windows ps nh nw m =
     map (\<lambda>i. map (\<lambda>j. map (\<lambda>u. map (\<lambda>v. m ! (i * ps + u) ! (j * ps + v)) [0..<ps]) [0..<ps])
       [0..<nw]) [0..<nh]"

text \<open>All flattened patches of an image, the grid in row-major order.\<close>

definition patches :: "nat \<Rightarrow> nat \<Rightarrow> nat \<Rightarrow> tensor3 \<Rightarrow> tensor2" where
  "patches ps nh nw img = concat (map (\<lambda>i. map (\<lambda>j. flatten_patch ps img i j) [0..<nw]) [0..<nh])"

text \<open>
  The patches of one channel after the first \<open>view\<close>: the grid merged into one dimension
  and every patch flattened.
\<close>

definition channel_patches :: "nat \<Rightarrow> nat \<Rightarrow> nat \<Rightarrow> tensor2 \<Rightarrow> tensor2" where
  "channel_patches ps nh nw m =
     concat (map (\<lambda>i. map (\<lambda>j. concat (map (\<lambda>u. map (\<lambda>v. m ! (i * ps + u) ! (j * ps + v)) [0..<ps])
       [0..<ps])) [0..<nw]) [0..<nh])"

text \<open>Entrywise addition of two tensors of the same shape.\<close>

definition plus1 :: "tensor1 \<Rightarrow> tensor1 \<Rightarrow> tensor1" where
  "plus1 u v = map (\<lambda>(a, b). a + b) (zip u v)"

definition plus2 :: "tensor2 \<Rightarrow> tensor2 \<Rightarrow> tensor2" where
  "plus2 m n = map (\<lambda>(u, v). plus1 u v) (zip m n)"

definition plus3 :: "tensor3 \<Rightarrow> tensor3 \<Rightarrow> tensor3" where
  "plus3 x y = map (\<lambda>(m, n). plus2 m n) (zip x y)"

text \<open>
  The shapes of the parameters of a module, as its constructor allocates them. Training
  changes the values of the parameters and keeps their shapes. An attention module is
  taken with a positive \<open>embed_dim\<close> and a positive \<open>num_heads\<close> that divides it.
\<close>

definition wf_Linear :: "nat \<Rightarrow> nat \<Rightarrow> Linear \<Rightarrow> bool" where
  "wf_Linear n_in n_out l =
     (in_features l = n_in \<and> out_features l = n_out \<and> shape2 n_out n_in (lin_weight l) \<and>
      length (lin_bias l) = n_out)"

definition wf_LayerNorm :: "nat \<Rightarrow> LayerNorm \<Rightarrow> bool" where
  "wf_LayerNorm n nrm =
     (normalized_shape nrm = n \<and> length (ln_weight nrm) = n \<and> length (ln_bias nrm) = n)"

definition wf_attn :: "nat \<Rightarrow> MultiHeadSelfAttention \<Rightarrow> bool" where
  "wf_attn e a =
     (0 < e \<and> 0 < attn_num_heads a \<and> attn_embed_dim a = int e \<and>
      int e mod attn_num_heads a = 0 \<and> attn_head_dim a = int e div attn_num_heads a \<and>
      wf_Linear e e (attn_query a) \<and> wf_Linear e e (attn_key a) \<and>
      wf_Linear e e (attn_value a) \<and> wf_Linear e e (attn_out a))"

text \<open>A linear layer and a layer normalisation applied to every token of a batch.\<close>

definition linear :: "Linear \<Rightarrow> tensor3 \<Rightarrow> tensor3" where
  "linear l x = map (map (affine l)) x"

definition layer_norm :: "LayerNorm \<Rightarrow> tensor3 \<Rightarrow> tensor3" where
  "layer_norm nrm x = map (map (layer_norm1 nrm)) x"

definition wf_enc :: "nat \<Rightarrow> nat \<Rightarrow> TransformerEncoder \<Rightarrow> bool" where
  "wf_enc e m self =
     (wf_attn e (enc_self_attn self) \<and> wf_Linear e m (enc_linear1 self) \<and>
      wf_Linear m e (enc_linear2 self) \<and> wf_LayerNorm e (enc_norm1 self) \<and>
      wf_LayerNorm e (enc_norm2 self))"

text \<open>
  \<open>wf_vit c p e m n l k self\<close>: the model \<open>self\<close> has the parameter shapes of a configuration
  with \<open>in_channels = c\<close>, \<open>patch_size = p\<close>, \<open>embed_dim = e\<close>, \<open>mlp_dim = m\<close>, \<open>n\<close> patches,
  \<open>num_layers = l\<close> and \<open>num_classes = k\<close>.
\<close>

definition wf_vit ::
  "nat \<Rightarrow> nat \<Rightarrow> nat \<Rightarrow> nat \<Rightarrow> nat \<Rightarrow> nat \<Rightarrow> nat \<Rightarrow> VisionTransformer \<Rightarrow> bool" where
  "wf_vit c p e m n l k self =
     (0 < p \<and> vit_patch_size self = int p \<and>
      pe_patch_size (vit_patch_embedding self) = int p \<and>
      pe_embed_dim (vit_patch_embedding self) = int e \<and>
      wf_Linear (c * (p * p)) e (pe_projection (vit_patch_embedding self)) \<and>
      shape3 1 (n + 1) e (pos_position_encoding (vit_position_encoding self)) \<and>
      shape3 1 1 e (vit_classification_token self) \<and>
      length (vit_transformer_encoders self) = l \<and>
      list_all (wf_enc e m) (vit_transformer_encoders self) \<and>
      wf_Linear e k (vit_classifier self))"

text \<open>The patch embedding of a batch: the projection applied to every flattened patch.\<close>

definition patch_embed :: "Linear \<Rightarrow> nat \<Rightarrow> nat \<Rightarrow> nat \<Rightarrow> tensor4 \<Rightarrow> tensor3" where
  "patch_embed l ps nh nw x = map (\<lambda>img. map (affine l) (patches ps nh nw img)) x"

text \<open>
  The token sequences of a batch: the class token in front of the patch embeddings of every
  image, and the positional encoding added.
\<close>

definition tokens :: "tensor1 \<Rightarrow> tensor2 \<Rightarrow> tensor3 \<Rightarrow> tensor3" where
  "tokens cls pos emb = map (\<lambda>e. plus2 (cls # e) pos) emb"

text \<open>All three dropout layers of an encoder block have the probability \<open>1/10\<close>.\<close>

definition default_dropouts :: "TransformerEncoder \<Rightarrow> bool" where
  "default_dropouts enc =
     (dropout_p (enc_dropout enc) = 1 / 10 \<and> dropout_p (enc_dropout1 enc) = 1 / 10 \<and>
      dropout_p (enc_dropout2 enc) = 1 / 10)"

text \<open>
  The attention weights in the words of the specification. \<open>scaled_scores c Q K\<close>: for every
  batch element and head, entry \<open>(i, j)\<close> is the dot product of query \<open>i\<close> and key \<open>j\<close>, divided
  by \<open>c\<close>. \<open>stable_softmax1\<close>: the softmax of a row with the maximum of the row subtracted
  before exponentiating.
\<close>

definition scaled_scores :: "real \<Rightarrow> tensor4 \<Rightarrow> tensor4 \<Rightarrow> tensor4" where
  "scaled_scores c Q K =
     map (\<lambda>(Qb, Kb). map (\<lambda>(Qh, Kh). map (\<lambda>q. map (\<lambda>k. dot q k / c) Kh) Qh) (zip Qb Kb))
         (zip Q K)"

definition stable_softmax1 :: "tensor1 \<Rightarrow> tensor1" where
  "stable_softmax1 v =
     map (\<lambda>a. exp (a - Max (set v)) / sum_list (map (\<lambda>b. exp (b - Max (set v))) v)) v"

definition stable_softmax :: "tensor4 \<Rightarrow> tensor4" where
  "stable_softmax x = map (map (map stable_softmax1)) x"

subsection \<open>Small concrete modules\<close>

text \<open>
  A one-dimensional linear layer \<open>v \<mapsto> w * v + b\<close>, an attention module with one head over
  embeddings of size one whose query, key and value projections differ, and an encoder block
  around it.
\<close>

definition ex_linear :: "real \<Rightarrow> real \<Rightarrow> Linear" where
  "ex_linear w b = \<lparr>in_features = 1, out_features = 1, lin_weight = [[w]], lin_bias = [b]\<rparr>"

definition ex_attn :: MultiHeadSelfAttention where
  "ex_attn = \<lparr>attn_num_heads = 1, attn_embed_dim = 1, attn_head_dim = 1,
     attn_query = ex_linear 1 0, attn_key = ex_linear 2 0, attn_value = ex_linear 3 0,
     attn_out = ex_linear 1 0\<rparr>"

definition ex_norm :: LayerNorm where
  "ex_norm = \<lparr>normalized_shape = 1, eps = 1 / 100000, ln_weight = [1], ln_bias = [0]\<rparr>"

definition ex_enc :: TransformerEncoder where
  "ex_enc = \<lparr>enc_self_attn = ex_attn, enc_linear1 = ex_linear 1 0,
     enc_dropout = \<lparr>dropout_p = 1 / 10\<rparr>, enc_linear2 = ex_linear 1 0,
     enc_norm1 = ex_norm, enc_norm2 = ex_norm,
     enc_dropout1 = \<lparr>dropout_p = 1 / 10\<rparr>, enc_dropout2 = \<lparr>dropout_p = 1 / 10\<rparr>\<rparr>"

definition ex_masks :: masks where
  "ex_masks = \<lparr>keep_dropout1 = (\<lambda>i j k. True), keep_dropout = (\<lambda>i j k. True),
     keep_dropout2 = (\<lambda>i j k. True)\<rparr>"

text \<open>
  A small model: \<open>VisionTransformer(img_size=4, in_channels=1, patch_size=2, embed_dim=2,
  mlp_dim=2, num_heads=1, num_layers=2, num_classes=2)\<close> with every random draw equal to
  \<open>0\<close>; a batch of one image with all pixels \<open>0\<close>; and dropout masks that keep everything.
\<close>

definition ex_rnd :: rand where
  "ex_rnd idx = 0"

definition ex_vit :: VisionTransformer where
  "ex_vit = projr (VisionTransformer_init 4 1 2 2 2 1 2 2 ex_rnd)"

definition ex_img :: "nat \<Rightarrow> nat \<Rightarrow> nat \<Rightarrow> tensor4" where
  "ex_img c h w = [replicate c (replicate h (replicate w 0))]"

definition ex_ms :: "nat \<Rightarrow> masks" where
  "ex_ms i = ex_masks"

text \<open>
  A configuration whose sizes are positive and at most those of the configuration that the
  notebook itself constructs (\<open>img_size = 224\<close>, \<open>in_channels = 3\<close>, \<open>patch_size = 16\<close>,
  \<open>embed_dim = 768\<close>, \<open>mlp_dim = 3072\<close>, \<open>num_layers = 12\<close>, \<open>num_classes = 10\<close>), with a
  positive \<open>num_heads\<close>.
\<close>

definition notebook_sized :: "int \<Rightarrow> int \<Rightarrow> int \<Rightarrow> int \<Rightarrow> int \<Rightarrow> int \<Rightarrow> int \<Rightarrow> int \<Rightarrow> bool" where
  "notebook_sized img_size in_channels patch_size embed_dim mlp_dim num_heads num_layers
       num_classes =
     (0 < img_size \<and> img_size \<le> 224 \<and> 0 < in_channels \<and> in_channels \<le> 3 \<and>
      0 < patch_size \<and> patch_size \<le> 16 \<and> 0 < embed_dim \<and> embed_dim \<le> 768 \<and>
      0 < mlp_dim \<and> mlp_dim \<le> 3072 \<and> 0 < num_heads \<and>
      0 < num_layers \<and> num_layers \<le> 12 \<and> 0 < num_classes \<and> num_classes \<le> 10)"

section \<open>Properties of the operations and the modules\<close>

subsection \<open>Sequencing, shapes and sizes\<close>

lemma andthen_Inr [simp]: "andthen (Inr a) f = f a"
  by (simp add: andthen_def)

lemma andthen_Inl [simp]: "andthen (Inl e) f = Inl e"
  by (simp add: andthen_def)

lemma shape2_iff: "shape2 r c x \<longleftrightarrow> length x = r \<and> (\<forall>v\<in>set x. length v = c)"
  by (simp add: shape2_def list_all_iff)

lemma shape3_iff: "shape3 b s e x \<longleftrightarrow> length x = b \<and> (\<forall>m\<in>set x. shape2 s e m)"
  by (simp add: shape3_def list_all_iff)

lemma shape4_iff: "shape4 b c h w x \<longleftrightarrow> length x = b \<and> (\<forall>m\<in>set x. shape3 c h w m)"
  by (simp add: shape4_def list_all_iff)

lemma size1_shape2: "shape2 r c x \<Longrightarrow> 0 < r \<Longrightarrow> size1 x = c"
  by (cases x) (auto simp: shape2_iff size1_def)

lemma size1_shape3: "shape3 b s e x \<Longrightarrow> 0 < b \<Longrightarrow> size1 x = s"
  by (cases x) (auto simp: shape3_iff shape2_iff size1_def)

lemma size2_shape3: "shape3 b s e x \<Longrightarrow> 0 < b \<Longrightarrow> 0 < s \<Longrightarrow> size2 x = e"
  by (cases x) (auto simp: shape3_iff size2_def size1_shape2)

lemma length_concat_uniform: "\<forall>v\<in>set xss. length v = n \<Longrightarrow> length (concat xss) = length xss * n"
  by (induction xss) auto

lemma rows_Suc: "rows (Suc cnt) n xs = take n xs # rows cnt n (drop n xs)"
proof -
  have "[0..<Suc cnt] = 0 # map Suc [0..<cnt]"
    by (simp add: upt_conv_Cons map_Suc_upt del: upt_Suc)
  then show ?thesis
    by (simp add: rows_def comp_def add.commute del: upt_Suc)
qed

lemma rows_concat: "\<forall>v\<in>set xss. length v = n \<Longrightarrow> rows (length xss) n (concat xss) = xss"
proof (induction xss)
  case Nil
  then show ?case by (simp add: rows_def)
next
  case (Cons a xss)
  then show ?case by (simp add: rows_Suc)
qed

lemma length_rows [simp]: "length (rows cnt n xs) = cnt"
  by (simp add: rows_def)

lemma shape2_rows: "cnt * n \<le> length xs \<Longrightarrow> shape2 cnt n (rows cnt n xs)"
proof -
  have "i < cnt \<Longrightarrow> cnt * n \<le> length xs \<Longrightarrow> n \<le> length xs - i * n" for i
  proof -
    assume a: "i < cnt" "cnt * n \<le> length xs"
    then have "Suc i * n \<le> cnt * n" by (intro mult_le_mono1) simp
    with a show ?thesis by simp
  qed
  then show "cnt * n \<le> length xs \<Longrightarrow> shape2 cnt n (rows cnt n xs)"
    by (auto simp: shape2_iff rows_def)
qed

subsection \<open>\<open>view\<close> on contiguous data\<close>

lemma shape5_iff: "shape5 a b c d e x \<longleftrightarrow> length x = a \<and> (\<forall>m\<in>set x. shape4 b c d e m)"
  by (simp add: shape5_def list_all_iff)

lemma shape6_iff: "shape6 a b c d e f x \<longleftrightarrow> length x = a \<and> (\<forall>m\<in>set x. shape5 b c d e f m)"
  by (simp add: shape6_def list_all_iff)

lemma concat_concat: "concat (concat xsss) = concat (map concat xsss)"
  by (induction xsss) auto

lemma shape2_concat: "shape3 b s e x \<Longrightarrow> shape2 (b * s) e (concat x)"
  by (auto simp: shape3_iff shape2_iff length_concat_uniform)

lemma shape3_concat: "shape4 a b s e x \<Longrightarrow> shape3 (a * b) s e (concat x)"
  by (auto simp: shape4_iff shape3_iff length_concat_uniform)

lemma length_concat_shape2: "shape2 r c x \<Longrightarrow> length (concat x) = r * c"
  by (auto simp: shape2_iff length_concat_uniform)

lemma length_concat2_shape3: "shape3 b s e x \<Longrightarrow> length (concat (concat x)) = b * s * e"
  using length_concat_shape2 shape2_concat by blast

lemma length_concat3_shape4: "shape4 a b s e x \<Longrightarrow> length (concat (concat (concat x))) = a * b * s * e"
  using length_concat2_shape3 shape3_concat by blast

lemma rows_shape2: "shape2 r c x \<Longrightarrow> rows r c (concat x) = x"
  using rows_concat [of x c] by (auto simp: shape2_iff)

lemma regroup3: 
  assumes "shape3 b s e x"
  shows "map (rows s e) (rows b (s * e) (concat (concat x))) = x"
proof -
  have 1: "shape2 b (s * e) (map concat x)"
    using assms by (auto simp: shape3_iff shape2_iff length_concat_uniform)
  have "concat (concat x) = concat (map concat x)"
    by (simp add: concat_concat)
  then have "rows b (s * e) (concat (concat x)) = map concat x"
    using rows_shape2 [OF 1] by simp
  moreover have "map (rows s e) (map concat x) = x"
    using assms by (auto simp: shape3_iff rows_shape2 intro: map_idI)
  ultimately show ?thesis by simp
qed

lemma regroup4:
  assumes "shape4 a b s e x"
  shows "map (map (rows s e)) (map (rows b (s * e)) (rows a (b * (s * e)) (concat (concat (concat x))))) = x"
proof -
  have 1: "shape2 a (b * (s * e)) (map (\<lambda>m. concat (concat m)) x)"
    using assms by (auto simp: shape4_iff shape2_iff length_concat2_shape3 mult.assoc)
  have "concat (concat (concat x)) = concat (map (\<lambda>m. concat (concat m)) x)"
    by (induction x) auto
  then have "rows a (b * (s * e)) (concat (concat (concat x))) = map (\<lambda>m. concat (concat m)) x"
    using rows_shape2 [OF 1] by simp
  moreover have "map (map (rows s e)) (map (rows b (s * e)) (map (\<lambda>m. concat (concat m)) x)) = x"
    using assms by (auto simp: shape4_iff regroup3 intro: map_idI)
  ultimately show ?thesis by simp
qed

lemma shape2_map_concat: "shape3 b s e x \<Longrightarrow> shape2 b (s * e) (map concat x)"
  by (auto simp: shape3_iff length_concat_shape2 shape2_def list_all_iff)

lemma shape3_map_concat: "shape4 a b s e x \<Longrightarrow> shape3 a b (s * e) (map (map concat) x)"
  by (auto simp: shape4_iff shape2_map_concat shape3_def list_all_iff)

lemma concat2_map_concat: "concat (concat (map (map concat) x)) = concat (concat (concat x))"
  by (induction x) (auto simp: concat_concat)

lemma view_merge_ok:
  assumes "shape4 a b s e x"
  shows "view_merge a b (s * e) x = Inr (map (map concat) x)"
proof -
  have "length (concat (concat (concat x))) = a * b * (s * e)"
    using length_concat3_shape4 [OF assms] by (simp add: mult.assoc)
  moreover have "map (rows b (s * e)) (rows a (b * (s * e)) (concat (concat (concat x))))
      = map (map concat) x"
    using regroup3 [OF shape3_map_concat [OF assms]] by (simp add: concat2_map_concat)
  ultimately show ?thesis by (simp add: view_merge_def)
qed

lemma view_3_ok:
  assumes "shape4 a b s e x" "0 < a" "0 < b"
  shows "view_3 a (int b) x = Inr (map (map concat) x)"
proof -
  have len: "length (concat (concat (concat x))) = (a * b) * (s * e)"
    using length_concat3_shape4 [OF assms(1)] by (simp add: mult.assoc)
  have ns: "int a * int b = int (a * b)" by simp
  have pos: "0 < a * b" using assms by simp
  have dv: "length (concat (concat (concat x))) div (a * b) = s * e"
    using len pos by simp
  have md: "int (length (concat (concat (concat x)))) mod int (a * b) = 0"
    unfolding len by (simp del: of_nat_mult add: zmod_int [symmetric])
  have "map (rows b (s * e)) (rows a (b * (s * e)) (concat (concat (concat x))))
      = map (map concat) x"
    using regroup3 [OF shape3_map_concat [OF assms(1)]] by (simp add: concat2_map_concat)
  then show ?thesis
    using pos md dv unfolding view_3_def Let_def ns by (simp del: of_nat_mult)
qed

lemma view_heads_ok:
  assumes "shape3 b s (h * d) x"
  shows "view_heads b s (int h) (int d) x = Inr (map (map (rows h d)) x)"
proof -
  have "int (length (concat (concat x))) = int b * int s * int h * int d"
    using length_concat2_shape3 [OF assms] by (simp add: mult.assoc)
  moreover have "map (rows s (h * d)) (rows b (s * (h * d)) (concat (concat x))) = x"
    by (rule regroup3 [OF assms])
  ultimately show ?thesis by (simp add: view_heads_def)
qed

lemma shape4_merge6:
  "shape6 a b n m u v x \<Longrightarrow>
   shape4 a b (n * m) (u * v) (map (map (\<lambda>g. concat (map (map concat) g))) x)"
proof -
  assume a: "shape6 a b n m u v x"
  have g: "shape2 (n * m) (u * v) (concat (map (map concat) g))" if "shape4 n m u v g" for g :: "'a list list list list"
    using shape2_concat [OF shape3_map_concat [OF that]] .
  have "shape3 b (n * m) (u * v) (map (\<lambda>g. concat (map (map concat) g)) y)" if "shape5 b n m u v y"
    for y :: "'a list list list list list"
    using that by (auto simp: shape5_iff g shape3_def list_all_iff)
  with a show ?thesis
    by (auto simp: shape6_iff shape4_def list_all_iff)
qed

lemma concat3_merge6:
  "concat (concat (concat (map (map (\<lambda>g. concat (map (map concat) g))) x)))
   = concat (concat (concat (concat (concat x))))"
proof -
  have g: "concat (concat (map (map concat) g)) = concat (concat (concat g))" for g :: "'a list list list list"
    by (rule concat2_map_concat)
  have c: "concat (concat (map (\<lambda>g. concat (map (map concat) g)) y)) = concat (concat (concat (concat y)))"
    for y :: "'a list list list list list"
    by (induction y) (auto simp: g)
  show ?thesis
    by (induction x) (auto simp: c)
qed

lemma view_4_ok:
  assumes "shape6 a b n m u v x" "0 < a" "0 < b" "0 < u * v"
  shows "view_4 a b (u * v) x = Inr (map (map (\<lambda>g. concat (map (map concat) g))) x)"
proof -
  let ?y = "map (map (\<lambda>g. concat (map (map concat) g))) x"
  let ?flat = "concat (concat (concat (concat (concat x))))"
  have sh: "shape4 a b (n * m) (u * v) ?y" by (rule shape4_merge6 [OF assms(1)])
  have fl: "concat (concat (concat ?y)) = ?flat" by (rule concat3_merge6)
  have len: "length ?flat = (n * m) * (a * b * (u * v))"
    using length_concat3_shape4 [OF sh] unfolding fl by (simp add: mult.assoc mult.left_commute)
  have pos: "0 < a * b * (u * v)" using assms by simp
  have dv: "length ?flat div (a * b * (u * v)) = n * m" using len pos by simp
  have md: "length ?flat mod (a * b * (u * v)) = 0" using len by simp
  have "map (map (rows (n * m) (u * v))) (map (rows b (n * m * (u * v)))
          (rows a (b * (n * m * (u * v))) ?flat)) = ?y"
    using regroup4 [OF sh] unfolding fl .
  then show ?thesis
    using pos md dv unfolding view_4_def Let_def by simp
qed

subsection \<open>Patch extraction\<close>

lemma size1_shape4: "shape4 a b c d x \<Longrightarrow> 0 < a \<Longrightarrow> size1 x = b"
  by (cases x) (auto simp: shape4_iff shape3_iff size1_def)

lemma size2_shape4: "shape4 a b c d x \<Longrightarrow> 0 < a \<Longrightarrow> 0 < b \<Longrightarrow> size2 x = c"
  by (cases x) (auto simp: shape4_iff size2_def size1_shape3)

lemma size3_shape4: "shape4 a b c d x \<Longrightarrow> 0 < a \<Longrightarrow> 0 < b \<Longrightarrow> 0 < c \<Longrightarrow> size3 x = d"
  by (cases x) (auto simp: shape4_iff size3_def size2_shape3)

lemma size3_shape5: "shape5 a b c d e x \<Longrightarrow> 0 < a \<Longrightarrow> 0 < b \<Longrightarrow> 0 < c \<Longrightarrow> size3 x = d"
  by (cases x) (auto simp: shape5_iff size3_def size2_shape4)

lemma size4_shape5:
  "shape5 a b c d e x \<Longrightarrow> 0 < a \<Longrightarrow> 0 < b \<Longrightarrow> 0 < c \<Longrightarrow> 0 < d \<Longrightarrow> size4 x = e"
  by (cases x) (auto simp: shape5_iff size4_def size3_shape4)

lemma windows_count: "0 < p \<Longrightarrow> p \<le> h \<Longrightarrow> Suc ((h - p) div p) = h div (p::nat)"
  by (simp add: le_div_geq)

lemma unfold_dim2_ok:
  assumes "shape4 B C H W x" "0 < B" "0 < C" "0 < p" "p \<le> H"
  shows "unfold_dim2 (int p) (int p) x =
    Inr (map (map (\<lambda>m. map (\<lambda>i. map (\<lambda>w. map (\<lambda>u. m ! (i * p + u) ! w) [0..<p]) [0..<W])
                 [0..<H div p])) x)"
proof -
  have "0 < H" using assms by simp
  then have "size2 x = H" "size3 x = W"
    using assms size2_shape4 size3_shape4 by blast+
  then show ?thesis
    using assms by (simp add: unfold_dim2_def windows_count del: upt_Suc)
qed

lemma shape5_unfold:
  assumes "length x = B" "\<forall>c\<in>set x. length c = C"
  shows "shape5 B C n W p
    (map (map (\<lambda>m. map (\<lambda>i. map (\<lambda>w. map (\<lambda>u. f m i w u) [0..<p]) [0..<W]) [0..<n])) x)"
  using assms
  by (auto simp: shape5_iff shape4_iff shape3_iff shape2_iff)

lemma unfold_dim3_ok:
  assumes "length x = B" "\<forall>c\<in>set x. length c = C" "0 < B" "0 < C" "0 < p" "p \<le> W" "0 < n"
  shows "unfold_dim3 (int p) (int p)
      (map (map (\<lambda>m. map (\<lambda>i. map (\<lambda>w. map (\<lambda>u. m ! (i * p + u) ! w) [0..<p]) [0..<W])
                 [0..<n])) x)
    = Inr (map (map (windows p n (W div p))) x)"
proof -
  let ?x1 = "map (map (\<lambda>m. map (\<lambda>i. map (\<lambda>w. map (\<lambda>u. m ! (i * p + u) ! w) [0..<p]) [0..<W])
                 [0..<n])) x"
  have sh: "shape5 B C n W p ?x1"
    by (rule shape5_unfold [OF assms(1,2)])
  have "0 < W" using assms by simp
  then have sz: "size3 ?x1 = W" "size4 ?x1 = p"
    using sh assms size3_shape5 size4_shape5 by blast+
  have idx: "j * p + v < W" if "j < W div p" "v < p" for j v
  proof -
    have "Suc j * p \<le> (W div p) * p" using that by (intro mult_le_mono1) simp
    also have "\<dots> \<le> W" by simp
    finally show ?thesis using that by simp
  qed
  show ?thesis
    unfolding unfold_dim3_def Let_def sz
    using assms by (simp add: windows_count windows_def idx del: upt_Suc)
qed

lemma shape6_windows:
  assumes "length x = B" "\<forall>c\<in>set x. length c = C"
  shows "shape6 B C n m p p (map (map (windows p n m)) x)"
  using assms
  by (auto simp: shape6_iff shape5_iff shape4_iff shape3_iff shape2_iff windows_def)

lemma length_concat_grid: "length (concat (map (\<lambda>i. map (f i) [0..<n]) [0..<m])) = m * n"
  by (induction m) auto

lemma nth_concat_grid:
  "j < m * n \<Longrightarrow> concat (map (\<lambda>i. map (f i) [0..<n]) [0..<m]) ! j = f (j div n) (j mod n)"
proof (induction m)
  case 0
  then show ?case by simp
next
  case (Suc m)
  show ?case
  proof (cases "j < m * n")
    case True
    then show ?thesis using Suc.IH by (simp add: nth_append length_concat_grid)
  next
    case False
    then have ge: "m * n \<le> j" by simp
    have lt: "j - m * n < n" using Suc.prems ge by simp
    define r where "r = j - m * n"
    have j: "j = r + m * n" using ge by (simp add: r_def)
    have rn: "r < n" using lt by (simp add: r_def)
    have dm: "j div n = m" "j mod n = j - m * n"
      using rn unfolding j by simp_all
    show ?thesis using False lt by (simp add: nth_append length_concat_grid dm)
  qed
qed

lemma merge_windows:
  "concat (map (map concat) (windows p nh nw m)) = channel_patches p nh nw m"
  by (simp add: windows_def channel_patches_def comp_def)

lemma length_channel_patches: "length (channel_patches p nh nw m) = nh * nw"
  by (simp add: channel_patches_def length_concat_grid)

lemma nth_channel_patches:
  "j < nh * nw \<Longrightarrow> channel_patches p nh nw m ! j =
     concat (map (\<lambda>u. map (\<lambda>v. m ! (j div nw * p + u) ! (j mod nw * p + v)) [0..<p]) [0..<p])"
  unfolding channel_patches_def by (rule nth_concat_grid)

lemma shape2_channel_patches: "shape2 (nh * nw) (p * p) (channel_patches p nh nw m)"
proof -
  have "length (concat (map (\<lambda>u. map (f u) [0..<p]) [0..<p])) = p * p" for f :: "nat \<Rightarrow> nat \<Rightarrow> real"
    by (rule length_concat_grid)
  then have "\<forall>v\<in>set (channel_patches p nh nw m). length v = p * p"
    unfolding channel_patches_def by auto
  then show ?thesis
    by (simp add: shape2_iff length_channel_patches)
qed

lemma length_nth_channel_patches:
  "j < nh * nw \<Longrightarrow> length (channel_patches p nh nw m ! j) = p * p"
  using shape2_channel_patches [of nh nw p m] by (simp add: shape2_iff)

lemma map_nth_fun: "map (\<lambda>i. g (xs ! i)) [0..<length xs] = map g xs"
  by (rule nth_equalityI) auto

lemma length_patches: "length (patches p nh nw img) = nh * nw"
  by (simp add: patches_def length_concat_grid)

lemma nth_patches: "j < nh * nw \<Longrightarrow> patches p nh nw img ! j = flatten_patch p img (j div nw) (j mod nw)"
  unfolding patches_def by (rule nth_concat_grid)

lemma permute_merge_patches:
  assumes "img \<noteq> []"
  shows "map concat (map (\<lambda>j. map (\<lambda>i. map (channel_patches p nh nw) img ! i ! j) [0..<length img])
           [0..<nh * nw]) = patches p nh nw img"
proof (rule nth_equalityI)
  show "length (map concat (map (\<lambda>j. map (\<lambda>i. map (channel_patches p nh nw) img ! i ! j)
      [0..<length img]) [0..<nh * nw])) = length (patches p nh nw img)"
    by (simp add: length_patches)
next
  fix j
  assume "j < length (map concat (map (\<lambda>j. map (\<lambda>i. map (channel_patches p nh nw) img ! i ! j)
      [0..<length img]) [0..<nh * nw]))"
  then have j: "j < nh * nw" by simp
  have "map (\<lambda>i. map (channel_patches p nh nw) img ! i ! j) [0..<length img]
      = map (\<lambda>i. (\<lambda>m. channel_patches p nh nw m ! j) (img ! i)) [0..<length img]"
    by simp
  also have "\<dots> = map (\<lambda>m. channel_patches p nh nw m ! j) img"
    by (rule map_nth_fun)
  finally have "concat (map (\<lambda>i. map (channel_patches p nh nw) img ! i ! j) [0..<length img])
      = flatten_patch p img (j div nw) (j mod nw)"
    using j by (simp add: flatten_patch_def nth_channel_patches)
  then show "map concat (map (\<lambda>j. map (\<lambda>i. map (channel_patches p nh nw) img ! i ! j)
      [0..<length img]) [0..<nh * nw]) ! j = patches p nh nw img ! j"
    using j by (simp add: nth_patches)
qed

lemma merge_all_patches:
  "\<forall>img\<in>set x. img \<noteq> [] \<Longrightarrow>
   map (map concat) (map (\<lambda>img. map (\<lambda>j. map (\<lambda>i. map (channel_patches p nh nw) img ! i ! j)
       [0..<length img]) [0..<nh * nw]) x) = map (patches p nh nw) x"
  by (induction x) (simp_all add: permute_merge_patches del: map_map)

lemma size1_map_channel_patches:
  "img \<noteq> [] \<Longrightarrow> size1 (map (channel_patches p nh nw) img) = nh * nw"
  by (cases img) (auto simp: size1_def length_channel_patches)

subsection \<open>Broadcasting addition\<close>

lemma bidx_less: "i < a \<Longrightarrow> bidx a i = i"
  by (auto simp: bidx_def)

lemma bidx_one: "bidx (Suc 0) i = 0"
  by (simp add: bidx_def)

lemma bdim_same [simp]: "bdim a a = a"
  by (simp add: bdim_def)

lemma bdim_one [simp]: "bdim a (Suc 0) = a"
  by (simp add: bdim_def)

lemma broadcastable_same [simp]: "broadcastable a a" "broadcastable a (Suc 0)"
  by (simp_all add: broadcastable_def)

lemma plus1_nth: "length u = n \<Longrightarrow> length v = n \<Longrightarrow> plus1 u v = map (\<lambda>k. u ! k + v ! k) [0..<n]"
  by (rule nth_equalityI) (auto simp: plus1_def)

lemma plus2_nth:
  assumes "shape2 s e m" "shape2 s e n"
  shows "plus2 m n = map (\<lambda>j. map (\<lambda>k. m ! j ! k + n ! j ! k) [0..<e]) [0..<s]"
proof (rule nth_equalityI)
  show "length (plus2 m n) = length (map (\<lambda>j. map (\<lambda>k. m ! j ! k + n ! j ! k) [0..<e]) [0..<s])"
    using assms by (simp add: plus2_def shape2_iff)
next
  fix j assume "j < length (plus2 m n)"
  then have j: "j < s" using assms by (simp add: plus2_def shape2_iff)
  then have "length (m ! j) = e" "length (n ! j) = e"
    using assms by (auto simp: shape2_iff)
  then show "plus2 m n ! j = map (\<lambda>j. map (\<lambda>k. m ! j ! k + n ! j ! k) [0..<e]) [0..<s] ! j"
    using j assms by (simp add: plus2_def shape2_iff plus1_nth)
qed

lemma shape2_nth: "shape2 s e m \<Longrightarrow> j < s \<Longrightarrow> length (m ! j) = e"
  by (auto simp: shape2_iff)

lemma shape3_nth: "shape3 b s e x \<Longrightarrow> i < b \<Longrightarrow> shape2 s e (x ! i)"
  by (auto simp: shape3_iff)

lemma add3_batch:
  assumes a: "shape3 B S E a" and p: "shape2 S E pe0" and pos: "0 < B" "0 < S"
  shows "add3 a [pe0] = Inr (map (\<lambda>m. plus2 m pe0) a)"
proof -
  have sa: "length a = B" "size1 a = S" "size2 a = E"
    using a pos size1_shape3 size2_shape3 by (auto simp: shape3_iff)
  have sp: "size1 [pe0] = S" "size2 [pe0] = E"
    using p pos size1_shape2 [OF p] by (auto simp: size2_def shape2_iff) (simp add: size1_def)
  have "map (\<lambda>i. map (\<lambda>j. map (\<lambda>k.
               a ! bidx B i ! bidx S j ! bidx E k + [pe0] ! bidx (Suc 0) i ! bidx S j ! bidx E k)
             [0..<E]) [0..<S]) [0..<B] = map (\<lambda>m. plus2 m pe0) a"
  proof (rule nth_equalityI)
    show "length (map (\<lambda>i. map (\<lambda>j. map (\<lambda>k.
               a ! bidx B i ! bidx S j ! bidx E k + [pe0] ! bidx (Suc 0) i ! bidx S j ! bidx E k)
             [0..<E]) [0..<S]) [0..<B]) = length (map (\<lambda>m. plus2 m pe0) a)"
      using sa by simp
  next
    fix i assume "i < length (map (\<lambda>i. map (\<lambda>j. map (\<lambda>k.
               a ! bidx B i ! bidx S j ! bidx E k + [pe0] ! bidx (Suc 0) i ! bidx S j ! bidx E k)
             [0..<E]) [0..<S]) [0..<B])"
    then have i: "i < B" by simp
    have "plus2 (a ! i) pe0 = map (\<lambda>j. map (\<lambda>k. a ! i ! j ! k + pe0 ! j ! k) [0..<E]) [0..<S]"
      using plus2_nth [OF shape3_nth [OF a i] p] .
    then show "map (\<lambda>i. map (\<lambda>j. map (\<lambda>k.
               a ! bidx B i ! bidx S j ! bidx E k + [pe0] ! bidx (Suc 0) i ! bidx S j ! bidx E k)
             [0..<E]) [0..<S]) [0..<B] ! i = map (\<lambda>m. plus2 m pe0) a ! i"
      using i sa by (simp add: bidx_less bidx_one)
  qed
  then show ?thesis
    unfolding add3_def Let_def sa sp by simp
qed

lemma add3_same:
  assumes a: "shape3 B S E a" and b: "shape3 B S E b" and pos: "0 < B" "0 < S"
  shows "add3 a b = Inr (plus3 a b)"
proof -
  have sa: "length a = B" "size1 a = S" "size2 a = E"
    using a pos size1_shape3 size2_shape3 by (auto simp: shape3_iff)
  have sb: "length b = B" "size1 b = S" "size2 b = E"
    using b pos size1_shape3 size2_shape3 by (auto simp: shape3_iff)
  have "map (\<lambda>i. map (\<lambda>j. map (\<lambda>k.
               a ! bidx B i ! bidx S j ! bidx E k + b ! bidx B i ! bidx S j ! bidx E k)
             [0..<E]) [0..<S]) [0..<B] = plus3 a b"
  proof (rule nth_equalityI)
    show "length (map (\<lambda>i. map (\<lambda>j. map (\<lambda>k.
               a ! bidx B i ! bidx S j ! bidx E k + b ! bidx B i ! bidx S j ! bidx E k)
             [0..<E]) [0..<S]) [0..<B]) = length (plus3 a b)"
      using sa sb by (simp add: plus3_def)
  next
    fix i assume "i < length (map (\<lambda>i. map (\<lambda>j. map (\<lambda>k.
               a ! bidx B i ! bidx S j ! bidx E k + b ! bidx B i ! bidx S j ! bidx E k)
             [0..<E]) [0..<S]) [0..<B])"
    then have i: "i < B" by simp
    have "plus2 (a ! i) (b ! i) = map (\<lambda>j. map (\<lambda>k. a ! i ! j ! k + b ! i ! j ! k) [0..<E]) [0..<S]"
      using plus2_nth [OF shape3_nth [OF a i] shape3_nth [OF b i]] .
    then show "map (\<lambda>i. map (\<lambda>j. map (\<lambda>k.
               a ! bidx B i ! bidx S j ! bidx E k + b ! bidx B i ! bidx S j ! bidx E k)
             [0..<E]) [0..<S]) [0..<B] ! i = plus3 a b ! i"
      using i sa sb by (simp add: bidx_less plus3_def)
  qed
  then show ?thesis
    unfolding add3_def Let_def sa sb by simp
qed

lemma length_plus1: "length u = n \<Longrightarrow> length v = n \<Longrightarrow> length (plus1 u v) = n"
  by (simp add: plus1_def)

lemma shape2_plus2: "shape2 s e m \<Longrightarrow> shape2 s e n \<Longrightarrow> shape2 s e (plus2 m n)"
  by (simp add: plus2_nth) (simp add: shape2_iff)

lemma shape3_plus3: "shape3 b s e x \<Longrightarrow> shape3 b s e y \<Longrightarrow> shape3 b s e (plus3 x y)"
  by (auto simp: shape3_iff plus3_def shape2_plus2 dest!: set_zip_leftD set_zip_rightD
      elim!: in_set_zipE)

lemma shape3_plus_batch: "shape3 b s e x \<Longrightarrow> shape2 s e pe0 \<Longrightarrow> shape3 b s e (map (\<lambda>m. plus2 m pe0) x)"
  by (auto simp: shape3_iff shape2_plus2)

subsection \<open>Attention\<close>

lemma length_affine: "wf_Linear i n l \<Longrightarrow> length (affine l v) = n"
  by (simp add: wf_Linear_def affine_def shape2_iff)

lemma shape3_mapI:
  "shape3 b s e x \<Longrightarrow> (\<And>v. length v = e \<Longrightarrow> length (f v) = e') \<Longrightarrow> shape3 b s e' (map (map f) x)"
  by (auto simp: shape3_iff shape2_iff)

lemma shape4_mapI:
  "shape3 b s e x \<Longrightarrow> (\<And>v. length v = e \<Longrightarrow> shape2 c d (f v)) \<Longrightarrow> shape4 b s c d (map (map f) x)"
  by (auto simp: shape4_iff shape3_iff shape2_iff)

lemma Linear_forward_ok:
  assumes "wf_Linear i n l" "shape3 b s i x"
  shows "Linear_forward l x = Inr (map (map (affine l)) x)"
    and "shape3 b s n (map (map (affine l)) x)"
proof -
  show "Linear_forward l x = Inr (map (map (affine l)) x)"
    using assms by (auto simp: Linear_forward_def wf_Linear_def shape3_iff shape2_iff list_all_iff)
  show "shape3 b s n (map (map (affine l)) x)"
    using assms(2) by (rule shape3_mapI) (rule length_affine [OF assms(1)])
qed

lemma shape4_permute:
  assumes "shape4 a b c d x" "0 < b"
  shows "shape4 a c b d (permute_0213 x)"
proof -
  have "shape3 c b d (map (\<lambda>j. map (\<lambda>i. xb ! i ! j) [0..<length xb]) [0..<size1 xb])"
    if "shape3 b c d xb" for xb :: "'a list list list"
  proof -
    have "size1 xb = c" "length xb = b" using that assms(2) size1_shape3 by (auto simp: shape3_iff)
    moreover have "length (xb ! i ! j) = d" if "i < b" "j < c" for i j
      using shape2_nth [OF shape3_nth [OF \<open>shape3 b c d xb\<close> that(1)] that(2)] .
    ultimately show ?thesis by (auto simp: shape3_iff shape2_iff)
  qed
  then show ?thesis
    using assms(1) by (auto simp: shape4_iff permute_0213_def)
qed

lemma shape2_transpose_last2: "shape2 s d m \<Longrightarrow> 0 < s \<Longrightarrow> shape2 d s (transpose_last2 m)"
  by (auto simp: transpose_last2_def size1_shape2) (simp add: shape2_iff)

lemma shape2_matmul2:
  "shape2 r k a \<Longrightarrow> shape2 k c b \<Longrightarrow> 0 < k \<Longrightarrow> shape2 r c (matmul2 a b)"
  by (auto simp: matmul2_def size1_shape2) (simp add: shape2_iff)

lemma shape4_zipI:
  assumes "shape4 n h r k a" "shape4 n h k' c b"
    and "\<And>u v. shape2 r k u \<Longrightarrow> shape2 k' c v \<Longrightarrow> shape2 r' c' (f u v)"
  shows "shape4 n h r' c' (map (\<lambda>(ab, bb). map (\<lambda>(ah, bh). f ah bh) (zip ab bb)) (zip a b))"
proof -
  have "shape3 h r' c' (map (\<lambda>(ah, bh). f ah bh) (zip ab bb))"
    if "shape3 h r k ab" "shape3 h k' c bb" for ab bb
    using that assms(3) by (auto simp: shape3_iff elim!: in_set_zipE)
  then show ?thesis
    using assms(1,2) by (auto simp: shape4_iff elim!: in_set_zipE)
qed

lemma shape4_matmul:
  assumes "shape4 n h r k a" "shape4 n h k c b" "0 < k"
  shows "shape4 n h r c (matmul a b)"
  unfolding matmul_def
  using assms(1,2) by (rule shape4_zipI) (simp add: shape2_matmul2 assms(3))

lemma shape4_transpose:
  "shape4 n h s d x \<Longrightarrow> 0 < s \<Longrightarrow> shape4 n h d s (transpose_m2_m1 x)"
  by (auto simp: shape4_iff shape3_iff transpose_m2_m1_def shape2_transpose_last2)

lemma shape4_map4: "shape4 n h r c x \<Longrightarrow> shape4 n h r c (map (map (map (map f))) x)"
  by (auto simp: shape4_iff shape3_iff shape2_iff)

lemma shape4_softmax: "shape4 n h r c x \<Longrightarrow> shape4 n h r c (softmax x)"
  by (auto simp: shape4_iff shape3_iff shape2_iff softmax_def softmax1_def)

lemma MultiHeadSelfAttention_forward_ok:
  assumes wf: "wf_attn e a" and sh: "shape3 b s e x" and pos: "0 < b" "0 < s"
  shows "\<exists>y. MultiHeadSelfAttention_forward a x = Inr y \<and> shape3 b s e y"
proof -
  obtain h where h: "attn_num_heads a = int h" "0 < h"
    using wf by (metis wf_attn_def zero_less_imp_eq_int of_nat_0_less_iff)
  define d where "d = e div h"
  have e: "e = h * d" "0 < e"
    using wf h unfolding d_def wf_attn_def
    by (auto simp: zmod_int [symmetric] simp del: of_nat_mult)
  have "0 < d" using e by (cases d) auto
  moreover have "attn_head_dim a = int d"
    using wf h unfolding d_def wf_attn_def by (simp add: zdiv_int)
  ultimately have d: "attn_head_dim a = int d" "0 < d" by simp_all
  have q: "wf_Linear e e (attn_query a)" and o: "wf_Linear e e (attn_out a)"
    using wf by (simp_all add: wf_attn_def)
  have sz: "length x = b" "size1 x = s" "size2 x = e"
    using sh pos size1_shape3 size2_shape3 by (auto simp: shape3_iff)
  let ?Q0 = "map (map (affine (attn_query a))) x"
  have Q0: "Linear_forward (attn_query a) x = Inr ?Q0" and sQ0: "shape3 b s (h * d) ?Q0"
    using Linear_forward_ok [OF q sh] e by simp_all
  let ?Q1 = "map (map (rows h d)) ?Q0"
  have Q1: "view_heads b s (int h) (int d) ?Q0 = Inr ?Q1"
    by (rule view_heads_ok [OF sQ0])
  have sQ1: "shape4 b s h d ?Q1"
    using sQ0 by (rule shape4_mapI) (simp add: shape2_rows)
  let ?Q = "permute_0213 ?Q1"
  have sQ: "shape4 b h s d ?Q"
    by (rule shape4_permute [OF sQ1 pos(2)])
  let ?att = "forward_attention a ?Q ?Q"
  have "shape4 b h s s (matmul ?Q (transpose_m2_m1 ?Q))"
    by (rule shape4_matmul [OF sQ shape4_transpose [OF sQ pos(2)] d(2)])
  then have satt: "shape4 b h s s ?att"
    by (simp add: forward_attention_def forward_scores_def div_scalar_def shape4_map4
        shape4_softmax)
  let ?out = "matmul ?att ?Q"
  have sout: "shape4 b h s d ?out"
    by (rule shape4_matmul [OF satt sQ pos(2)])
  have sperm: "shape4 b s h d (permute_0213 ?out)"
    by (rule shape4_permute [OF sout h(2)])
  let ?out1 = "map (map concat) (permute_0213 ?out)"
  have vm: "view_merge b s e (permute_0213 ?out) = Inr ?out1"
    using view_merge_ok [OF sperm] e by simp
  have sout1: "shape3 b s e ?out1"
    using shape3_map_concat [OF sperm] e by simp
  have "MultiHeadSelfAttention_forward a x = Linear_forward (attn_out a) ?out1"
    unfolding MultiHeadSelfAttention_forward_def Let_def sz forward_Q_def forward_K_def
      forward_V_def h d
    by (simp add: Q0 Q1 vm del: map_map)
  then show ?thesis
    using Linear_forward_ok [OF o sout1] by simp
qed

subsection \<open>The encoder block and the encoder stack\<close>

lemma linear_ok:
  assumes "wf_Linear i n l" "shape3 b s i x"
  shows "Linear_forward l x = Inr (linear l x)" and "shape3 b s n (linear l x)"
  using Linear_forward_ok [OF assms] by (simp_all add: linear_def)

lemma layer_norm_ok:
  assumes "wf_LayerNorm e nrm" "shape3 b s e x"
  shows "LayerNorm_forward nrm x = Inr (layer_norm nrm x)" and "shape3 b s e (layer_norm nrm x)"
proof -
  show "LayerNorm_forward nrm x = Inr (layer_norm nrm x)"
    using assms
    by (auto simp: LayerNorm_forward_def layer_norm_def wf_LayerNorm_def shape3_iff shape2_iff
        list_all_iff)
  have "length (layer_norm1 nrm v) = e" if "length v = e" for v
    using that assms(1) by (simp add: layer_norm1_def wf_LayerNorm_def)
  then show "shape3 b s e (layer_norm nrm x)"
    unfolding layer_norm_def using assms(2) shape3_mapI by blast
qed

lemma shape3_gelu: "shape3 b s e x \<Longrightarrow> shape3 b s e (gelu x)"
  unfolding gelu_def by (rule shape3_mapI) simp_all

lemma shape3_Dropout: 
  assumes "shape3 b s e x"
  shows "shape3 b s e (Dropout_forward d training keep x)"
proof (cases "\<not> training \<or> dropout_p d = 0")
  case True
  then show ?thesis using assms by (simp add: Dropout_forward_def)
next
  case False
  have "shape2 s e (map (\<lambda>(j, v). map (\<lambda>(k, a).
             if dropout_p d \<noteq> 1 \<and> keep i j k then a / (1 - dropout_p d) else 0)
           (zip [0..<length v] v)) (zip [0..<length m] m))"
    if "shape2 s e m" for m i
    using that by (auto simp: shape2_iff elim!: in_set_zipE)
  then show ?thesis
    using assms False
    by (auto simp: Dropout_forward_def shape3_iff elim!: in_set_zipE)
qed

lemma TransformerEncoder_forward_ok:
  assumes wf: "wf_enc e m self" and sh: "shape3 b s e x" and pos: "0 < b" "0 < s"
  shows "\<exists>attn_out. MultiHeadSelfAttention_forward (enc_self_attn self) x = Inr attn_out \<and>
    (let x1 = layer_norm (enc_norm1 self)
                (plus3 x (Dropout_forward (enc_dropout1 self) training (keep_dropout1 ms) attn_out));
         h = linear (enc_linear1 self) x1;
         ff_out = linear (enc_linear2 self)
                    (Dropout_forward (enc_dropout self) training (keep_dropout ms) (gelu h));
         y = layer_norm (enc_norm2 self)
               (plus3 x1 (Dropout_forward (enc_dropout2 self) training (keep_dropout2 ms) ff_out))
     in shape3 b s m h \<and> shape3 b s e ff_out \<and> shape3 b s e y \<and>
        TransformerEncoder_forward self training ms x = Inr y)"
proof -
  have wfs: "wf_attn e (enc_self_attn self)" "wf_Linear e m (enc_linear1 self)"
    "wf_Linear m e (enc_linear2 self)" "wf_LayerNorm e (enc_norm1 self)"
    "wf_LayerNorm e (enc_norm2 self)"
    using wf by (simp_all add: wf_enc_def)
  obtain attn_out where a: "MultiHeadSelfAttention_forward (enc_self_attn self) x = Inr attn_out"
    and sa: "shape3 b s e attn_out"
    using MultiHeadSelfAttention_forward_ok [OF wfs(1) sh pos] by blast
  define r1 where "r1 = plus3 x (Dropout_forward (enc_dropout1 self) training (keep_dropout1 ms) attn_out)"
  define x1 where "x1 = layer_norm (enc_norm1 self) r1"
  define h where "h = linear (enc_linear1 self) x1"
  define ff_out where "ff_out = linear (enc_linear2 self)
                    (Dropout_forward (enc_dropout self) training (keep_dropout ms) (gelu h))"
  define r2 where "r2 = plus3 x1 (Dropout_forward (enc_dropout2 self) training (keep_dropout2 ms) ff_out)"
  define y where "y = layer_norm (enc_norm2 self) r2"
  have sd1: "shape3 b s e (Dropout_forward (enc_dropout1 self) training (keep_dropout1 ms) attn_out)"
    by (rule shape3_Dropout [OF sa])
  have e1: "add3 x (Dropout_forward (enc_dropout1 self) training (keep_dropout1 ms) attn_out) = Inr r1"
    unfolding r1_def by (rule add3_same [OF sh sd1 pos])
  have sr1: "shape3 b s e r1" unfolding r1_def by (rule shape3_plus3 [OF sh sd1])
  have e2: "LayerNorm_forward (enc_norm1 self) r1 = Inr x1" and sx1: "shape3 b s e x1"
    unfolding x1_def using layer_norm_ok [OF wfs(4) sr1] by simp_all
  have e3: "Linear_forward (enc_linear1 self) x1 = Inr h" and sh1: "shape3 b s m h"
    unfolding h_def using linear_ok [OF wfs(2) sx1] by simp_all
  have sg: "shape3 b s m (Dropout_forward (enc_dropout self) training (keep_dropout ms) (gelu h))"
    by (rule shape3_Dropout [OF shape3_gelu [OF sh1]])
  have e4: "Linear_forward (enc_linear2 self)
      (Dropout_forward (enc_dropout self) training (keep_dropout ms) (gelu h)) = Inr ff_out"
    and sff: "shape3 b s e ff_out"
    unfolding ff_out_def using linear_ok [OF wfs(3) sg] by simp_all
  have sd2: "shape3 b s e (Dropout_forward (enc_dropout2 self) training (keep_dropout2 ms) ff_out)"
    by (rule shape3_Dropout [OF sff])
  have e5: "add3 x1 (Dropout_forward (enc_dropout2 self) training (keep_dropout2 ms) ff_out) = Inr r2"
    unfolding r2_def by (rule add3_same [OF sx1 sd2 pos])
  have sr2: "shape3 b s e r2" unfolding r2_def by (rule shape3_plus3 [OF sx1 sd2])
  have e6: "LayerNorm_forward (enc_norm2 self) r2 = Inr y" and sy: "shape3 b s e y"
    unfolding y_def using layer_norm_ok [OF wfs(5) sr2] by simp_all
  have "TransformerEncoder_forward self training ms x = Inr y"
    by (simp add: TransformerEncoder_forward_def a e1 e2 e3 e4 e5 e6)
  then show ?thesis
    using a sh1 sff sy
    unfolding Let_def y_def r2_def ff_out_def h_def x1_def r1_def by blast
qed

lemma TransformerEncoder_forward_shape:
  assumes "wf_enc e m self" "shape3 b s e x" "0 < b" "0 < s"
  shows "\<exists>y. TransformerEncoder_forward self training ms x = Inr y \<and> shape3 b s e y"
  using TransformerEncoder_forward_ok [OF assms, of training ms] unfolding Let_def by blast

lemma forward_layers_ok:
  assumes "list_all (wf_enc e m) layers" "shape3 b s e x" "0 < b" "0 < s"
  shows "\<exists>y. forward_layers layers training ms k x = Inr y \<and> shape3 b s e y"
  using assms
proof (induction layers arbitrary: k x)
  case Nil
  then show ?case by simp
next
  case (Cons layer layers)
  then obtain x' where "TransformerEncoder_forward layer training (ms k) x = Inr x'"
    "shape3 b s e x'"
    using TransformerEncoder_forward_shape [of e m layer b s x training "ms k"] by auto
  then show ?case using Cons by simp
qed

lemma forward_layers_trace:
  assumes "forward_layers layers training ms k x = Inr y"
  shows "\<exists>xs. xs 0 = x \<and> xs (length layers) = y \<and>
    (\<forall>i<length layers. TransformerEncoder_forward (layers ! i) training (ms (k + i)) (xs i)
        = Inr (xs (Suc i)))"
  using assms
proof (induction layers arbitrary: k x)
  case Nil
  then show ?case by (intro exI [of _ "\<lambda>_. x"]) simp
next
  case (Cons layer layers)
  then obtain x' where 1: "TransformerEncoder_forward layer training (ms k) x = Inr x'"
    and 2: "forward_layers layers training ms (Suc k) x' = Inr y"
    by (auto simp: andthen_def split: sum.splits)
  from Cons.IH [OF 2] obtain xs where xs: "xs 0 = x'" "xs (length layers) = y"
    "\<forall>i<length layers. TransformerEncoder_forward (layers ! i) training (ms (Suc k + i)) (xs i)
        = Inr (xs (Suc i))" by blast
  let ?xs = "\<lambda>i. case i of 0 \<Rightarrow> x | Suc j \<Rightarrow> xs j"
  have "\<forall>i<length (layer # layers).
      TransformerEncoder_forward ((layer # layers) ! i) training (ms (k + i)) (?xs i)
        = Inr (?xs (Suc i))"
  proof (intro allI impI)
    fix i assume "i < length (layer # layers)"
    then show "TransformerEncoder_forward ((layer # layers) ! i) training (ms (k + i)) (?xs i)
        = Inr (?xs (Suc i))"
      using 1 xs by (cases i) auto
  qed
  then show ?case
    using xs by (intro exI [of _ ?xs]) simp
qed

subsection \<open>\<open>PatchEmbedding.forward\<close>\<close>

lemma shape3_embed:
  assumes "wf_Linear i e l" "length x = b"
  shows "shape3 b (nh * nw) e (patch_embed l p nh nw x)"
  using assms by (auto simp: patch_embed_def shape3_iff shape2_iff length_patches length_affine)

lemma PatchEmbedding_forward_Linear:
  assumes sh: "shape4 B C H W x" and pos: "0 < B" "0 < C" "0 < p" "p \<le> H" "p \<le> W"
    and ps: "pe_patch_size self = int p"
  shows "PatchEmbedding_forward self x =
    Linear_forward (pe_projection self) (map (patches p (H div p) (W div p)) x)"
    and "shape3 B (H div p * (W div p)) (C * (p * p)) (map (patches p (H div p) (W div p)) x)"
proof -
  let ?nh = "H div p" and ?nw = "W div p"
  have nh: "0 < ?nh" and nw: "0 < ?nw" using pos by (simp_all add: div_greater_zero_iff)
  have lx: "length x = B" and lc: "\<forall>c\<in>set x. length c = C"
    using sh by (auto simp: shape4_iff shape3_iff)
  have ne: "\<forall>c\<in>set x. c \<noteq> []" using lc pos by auto
  have sz: "size1 x = C" using sh pos size1_shape4 by blast
  have "0 < H" using pos by simp
  then have sz2: "size2 x = H" and sz3: "size3 x = W"
    using sh pos size2_shape4 size3_shape4 by blast+
  have nn: "nat (int p * int p) = p * p" by (simp add: nat_mult_distrib)
  let ?x2 = "map (map (windows p ?nh ?nw)) x"
  let ?x3 = "map (map (channel_patches p ?nh ?nw)) x"
  let ?x4 = "map (patches p ?nh ?nw) x"
  have u2: "unfold_dim2 (int p) (int p) x =
      Inr (map (map (\<lambda>m. map (\<lambda>i. map (\<lambda>w. map (\<lambda>u. m ! (i * p + u) ! w) [0..<p]) [0..<W])
                 [0..<?nh])) x)"
    using unfold_dim2_ok [OF sh pos(1,2,3,4)] .
  have u3: "unfold_dim3 (int p) (int p)
      (map (map (\<lambda>m. map (\<lambda>i. map (\<lambda>w. map (\<lambda>u. m ! (i * p + u) ! w) [0..<p]) [0..<W])
                 [0..<?nh])) x) = Inr ?x2"
    using unfold_dim3_ok [OF lx lc pos(1,2,3) pos(5) nh] .
  have "view_4 B C (p * p) ?x2 = Inr (map (map (\<lambda>g. concat (map (map concat) g))) ?x2)"
    using view_4_ok [OF shape6_windows [OF lx lc] pos(1,2)] pos(3) by simp
  then have v4: "view_4 B C (p * p) ?x2 = Inr ?x3"
    by (simp add: comp_def merge_windows)
  have pm: "permute_0213 ?x3 =
      map (\<lambda>img. map (\<lambda>j. map (\<lambda>i. map (channel_patches p ?nh ?nw) img ! i ! j) [0..<length img])
           [0..<?nh * ?nw]) x"
    using ne by (simp add: permute_0213_def size1_map_channel_patches)
  have mg: "map (map concat) (permute_0213 ?x3) = ?x4"
    unfolding pm using ne by (rule merge_all_patches)
  have sh4: "shape4 B (?nh * ?nw) C (p * p) (permute_0213 ?x3)"
    unfolding pm using lx lc
    by (auto simp: shape4_iff shape3_iff shape2_iff length_nth_channel_patches)
  have v3: "view_3 B (int (?nh * ?nw)) (permute_0213 ?x3) = Inr ?x4"
    using view_3_ok [OF sh4 pos(1)] nh nw mg by simp
  have np: "int H div int p * (int W div int p) = int (?nh * ?nw)"
    by (simp add: zdiv_int)
  show "shape3 B (?nh * ?nw) (C * (p * p)) ?x4"
    using shape3_map_concat [OF sh4] mg by simp
  show "PatchEmbedding_forward self x = Linear_forward (pe_projection self) ?x4"
    unfolding PatchEmbedding_forward_def Let_def ps lx sz sz2 sz3 nn
    using pos(3) by (simp add: u2 u3 v4 np v3 comp_def del: of_nat_mult)
qed

lemma PatchEmbedding_forward_embed:
  assumes sh: "shape4 B C H W x" and pos: "0 < B" "0 < C" "0 < p" "p \<le> H" "p \<le> W"
    and ps: "pe_patch_size self = int p"
    and wf: "wf_Linear (C * (p * p)) e (pe_projection self)"
  shows "PatchEmbedding_forward self x = Inr (patch_embed (pe_projection self) p (H div p) (W div p) x)"
  using PatchEmbedding_forward_Linear [OF sh pos ps] Linear_forward_ok(1) [OF wf]
  by (simp add: patch_embed_def)

lemma PatchEmbedding_forward_channels:
  assumes sh: "shape4 B C H W x" and pos: "0 < B" "0 < C" "0 < p" "p \<le> H" "p \<le> W"
    and ps: "pe_patch_size self = int p"
    and wf: "wf_Linear (C' * (p * p)) e (pe_projection self)" and ne: "C \<noteq> C'"
  shows "PatchEmbedding_forward self x = Inl RuntimeError"
proof -
  let ?x4 = "map (patches p (H div p) (W div p)) x"
  have s: "shape3 B (H div p * (W div p)) (C * (p * p)) ?x4"
    by (rule PatchEmbedding_forward_Linear(2) [OF sh pos ps])
  have "0 < H div p * (W div p)" using pos by (simp add: div_greater_zero_iff)
  then obtain m v where "m \<in> set ?x4" "v \<in> set m" "length v = C * (p * p)"
    using s pos(1) unfolding shape3_iff shape2_iff
    by (metis length_greater_0_conv last_in_set)
  moreover have "C * (p * p) \<noteq> in_features (pe_projection self)"
    using wf ne pos(3) by (simp add: wf_Linear_def)
  ultimately have "\<not> list_all (list_all (\<lambda>v. length v = in_features (pe_projection self))) ?x4"
    unfolding list_all_iff by metis
  then show ?thesis
    unfolding PatchEmbedding_forward_Linear(1) [OF sh pos ps] by (simp add: Linear_forward_def)
qed

subsection \<open>\<open>VisionTransformer.forward\<close>\<close>

lemma shape3_1_1: "shape3 1 1 e t \<Longrightarrow> \<exists>v. t = [[v]] \<and> length v = e"
  by (cases t; cases "hd t") (auto simp: shape3_iff shape2_iff)

lemma shape3_1: "shape3 1 s e t \<Longrightarrow> \<exists>m. t = [m] \<and> shape2 s e m"
  by (cases t) (auto simp: shape3_iff)

lemma zip_replicate_map:
  "length xs = n \<Longrightarrow> map (\<lambda>(u, v). f u v) (zip (replicate n c) xs) = map (f c) xs"
  by (rule nth_equalityI) auto

lemma cat1_cls:
  assumes "shape3 b s e emb" "length v = e" "0 < b" "0 < s"
  shows "cat1 (replicate b [v]) emb = Inr (map (\<lambda>m. v # m) emb)"
    and "shape3 b (Suc s) e (map (\<lambda>m. v # m) emb)"
proof -
  have "size2 (replicate b [v]) = e"
    using assms(2,3) by (cases b) (simp_all add: size2_def size1_def)
  moreover have "size2 emb = e" "length emb = b"
    using assms size2_shape3 by (auto simp: shape3_iff)
  ultimately show "cat1 (replicate b [v]) emb = Inr (map (\<lambda>m. v # m) emb)"
    using zip_replicate_map [of emb b "\<lambda>u v. u @ v" "[v]"] by (simp add: cat1_def)
  show "shape3 b (Suc s) e (map (\<lambda>m. v # m) emb)"
    using assms(1,2) by (auto simp: shape3_iff shape2_iff)
qed

lemma add3_mismatch:
  assumes a: "shape3 B S E a" and p: "shape2 S' E' pe0" and pos: "0 < B"
    and ne: "S \<noteq> S'" "S \<noteq> 1" "S' \<noteq> 1"
  shows "add3 a [pe0] = Inl RuntimeError"
proof -
  have "size1 a = S" using a pos size1_shape3 by blast
  moreover have "size1 [pe0] = S'" using p by (simp add: size1_def shape2_iff)
  ultimately show ?thesis
    using ne by (simp add: add3_def broadcastable_def)
qed

lemma forward_tokens_ok:
  assumes wf: "wf_vit c p e m n l k self"
    and sh: "shape4 b c H W x" and pos: "0 < b" "0 < c" "p \<le> H" "p \<le> W"
    and np: "H div p * (W div p) = n"
  shows "\<exists>cls pos. vit_classification_token self = [[cls]] \<and>
      pos_position_encoding (vit_position_encoding self) = [pos] \<and>
      forward_tokens self x =
        Inr (tokens cls pos (patch_embed (pe_projection (vit_patch_embedding self)) p (H div p) (W div p) x)) \<and>
      shape3 b (n + 1) e
        (tokens cls pos (patch_embed (pe_projection (vit_patch_embedding self)) p (H div p) (W div p) x))"
proof -
  let ?pe = "vit_patch_embedding self"
  let ?emb = "patch_embed (pe_projection ?pe) p (H div p) (W div p) x"
  have p0: "0 < p" and ps: "pe_patch_size ?pe = int p"
    and wl: "wf_Linear (c * (p * p)) e (pe_projection ?pe)"
    using wf by (simp_all add: wf_vit_def)
  obtain cls where cls: "vit_classification_token self = [[cls]]" "length cls = e"
    using wf shape3_1_1 unfolding wf_vit_def by blast
  obtain pos' where pos': "pos_position_encoding (vit_position_encoding self) = [pos']"
    "shape2 (n + 1) e pos'"
    using wf shape3_1 unfolding wf_vit_def by blast
  have n0: "0 < n" using np pos p0 by (auto simp: div_greater_zero_iff)
  have lx: "length x = b" using sh by (simp add: shape4_iff)
  have 1: "PatchEmbedding_forward ?pe x = Inr ?emb"
    by (rule PatchEmbedding_forward_embed [OF sh pos(1,2) p0 pos(3,4) ps wl])
  have se: "shape3 b n e ?emb" "length ?emb = b"
    using shape3_embed [OF wl lx, of "H div p" "W div p" p] np by (simp_all add: shape3_iff)
  have 2: "expand0 b (vit_classification_token self) = Inr (replicate b [cls])"
    by (simp add: cls expand0_def)
  have 3: "cat1 (replicate b [cls]) ?emb = Inr (map (\<lambda>m. cls # m) ?emb)"
    and s3: "shape3 b (n + 1) e (map (\<lambda>m. cls # m) ?emb)"
    using cat1_cls [OF se(1) cls(2) pos(1) n0] by simp_all
  have 4: "add3 (map (\<lambda>m. cls # m) ?emb) [pos'] = Inr (map (\<lambda>m. plus2 m pos') (map (\<lambda>m. cls # m) ?emb))"
    by (rule add3_batch [OF s3 pos'(2) pos(1)]) simp
  have 5: "map (\<lambda>m. plus2 m pos') (map (\<lambda>m. cls # m) ?emb) = tokens cls pos' ?emb"
    by (simp add: tokens_def)
  have "forward_tokens self x = Inr (tokens cls pos' ?emb)"
    unfolding forward_tokens_def Let_def 1 
    by (simp add: se(2) 2 3 Position_Encoding_forward_def pos'(1) 4 5 del: map_map)
  moreover have "shape3 b (n + 1) e (tokens cls pos' ?emb)"
    using shape3_plus_batch [OF s3 pos'(2)] 5 by simp
  ultimately show ?thesis using cls(1) pos'(1) by blast
qed

lemma forward_tokens_patch_count:
  assumes wf: "wf_vit c p e m n l k self"
    and sh: "shape4 b c H W x" and pos: "0 < b" "0 < c" "p \<le> H" "p \<le> W"
    and np: "H div p * (W div p) \<noteq> n" "n \<noteq> 0"
  shows "forward_tokens self x = Inl RuntimeError"
proof -
  let ?pe = "vit_patch_embedding self"
  let ?emb = "patch_embed (pe_projection ?pe) p (H div p) (W div p) x"
  let ?n' = "H div p * (W div p)"
  have p0: "0 < p" and ps: "pe_patch_size ?pe = int p"
    and wl: "wf_Linear (c * (p * p)) e (pe_projection ?pe)"
    using wf by (simp_all add: wf_vit_def)
  obtain cls where cls: "vit_classification_token self = [[cls]]" "length cls = e"
    using wf shape3_1_1 unfolding wf_vit_def by blast
  obtain pos' where pos': "pos_position_encoding (vit_position_encoding self) = [pos']"
    "shape2 (n + 1) e pos'"
    using wf shape3_1 unfolding wf_vit_def by blast
  have n0: "0 < ?n'" using pos p0 by (auto simp: div_greater_zero_iff)
  have lx: "length x = b" using sh by (simp add: shape4_iff)
  have 1: "PatchEmbedding_forward ?pe x = Inr ?emb"
    by (rule PatchEmbedding_forward_embed [OF sh pos(1,2) p0 pos(3,4) ps wl])
  have se: "shape3 b ?n' e ?emb" "length ?emb = b"
    using shape3_embed [OF wl lx, of "H div p" "W div p" p] by (simp_all add: shape3_iff)
  have 2: "expand0 b (vit_classification_token self) = Inr (replicate b [cls])"
    by (simp add: cls expand0_def)
  have 3: "cat1 (replicate b [cls]) ?emb = Inr (map (\<lambda>m. cls # m) ?emb)"
    and s3: "shape3 b (Suc ?n') e (map (\<lambda>m. cls # m) ?emb)"
    using cat1_cls [OF se(1) cls(2) pos(1) n0] by simp_all
  have 4: "add3 (map (\<lambda>m. cls # m) ?emb) [pos'] = Inl RuntimeError"
    using add3_mismatch [OF s3 pos'(2) pos(1)] np n0 by simp
  show ?thesis
    unfolding forward_tokens_def Let_def 1 
    by (simp add: se(2) 2 3 Position_Encoding_forward_def pos'(1) 4 del: map_map)
qed

lemma Linear_forward2_ok:
  assumes "wf_Linear i n l" "shape2 b i x"
  shows "Linear_forward2 l x = Inr (map (affine l) x)" and "shape2 b n (map (affine l) x)"
  using assms by (auto simp: Linear_forward2_def wf_Linear_def shape2_iff list_all_iff affine_def)

lemma select_1_0_ok:
  assumes "shape3 b s e x" "0 < b" "0 < s"
  shows "select_1_0 x = Inr (map (\<lambda>m. m ! 0) x)" and "shape2 b e (map (\<lambda>m. m ! 0) x)"
proof -
  have "size1 x = s" using assms size1_shape3 by blast
  then show "select_1_0 x = Inr (map (\<lambda>m. m ! 0) x)"
    using assms(3) by (simp add: select_1_0_def)
  show "shape2 b e (map (\<lambda>m. m ! 0) x)"
    using assms by (auto simp: shape3_iff shape2_iff)
qed

lemma VisionTransformer_forward_ok:
  assumes wf: "wf_vit c p e m n l k self"
    and sh: "shape4 b c H W x" and pos: "0 < b" "0 < c" "p \<le> H" "p \<le> W"
    and np: "H div p * (W div p) = n"
  shows "\<exists>cls pos xs.
      vit_classification_token self = [[cls]] \<and> length cls = e \<and>
      pos_position_encoding (vit_position_encoding self) = [pos] \<and>
      PatchEmbedding_forward (vit_patch_embedding self) x =
        Inr (patch_embed (pe_projection (vit_patch_embedding self)) p (H div p) (W div p) x) \<and>
      forward_tokens self x = Inr (xs 0) \<and>
      xs 0 = tokens cls pos
               (patch_embed (pe_projection (vit_patch_embedding self)) p (H div p) (W div p) x) \<and>
      shape3 b (n + 1) e (xs 0) \<and>
      (\<forall>i<l. TransformerEncoder_forward (vit_transformer_encoders self ! i) training (ms i) (xs i)
               = Inr (xs (Suc i))) \<and>
      VisionTransformer_forward self training ms x =
        Inr (map (\<lambda>t. affine (vit_classifier self) (t ! 0)) (xs l)) \<and>
      shape2 b k (map (\<lambda>t. affine (vit_classifier self) (t ! 0)) (xs l))"
proof -
  let ?pe = "vit_patch_embedding self"
  let ?emb = "patch_embed (pe_projection ?pe) p (H div p) (W div p) x"
  have p0: "0 < p" and ps: "pe_patch_size ?pe = int p"
    and wl: "wf_Linear (c * (p * p)) e (pe_projection ?pe)"
    and le: "length (vit_transformer_encoders self) = l"
    and we: "list_all (wf_enc e m) (vit_transformer_encoders self)"
    and wc: "wf_Linear e k (vit_classifier self)"
    using wf by (simp_all add: wf_vit_def)
  have 1: "PatchEmbedding_forward ?pe x = Inr ?emb"
    by (rule PatchEmbedding_forward_embed [OF sh pos(1,2) p0 pos(3,4) ps wl])
  obtain cls pos' where t: "vit_classification_token self = [[cls]]"
    "pos_position_encoding (vit_position_encoding self) = [pos']"
    "forward_tokens self x = Inr (tokens cls pos' ?emb)"
    "shape3 b (n + 1) e (tokens cls pos' ?emb)"
    using forward_tokens_ok [OF wf sh pos np] by blast
  have lc: "length cls = e"
    using wf t(1) by (simp add: wf_vit_def shape3_def shape2_def)
  obtain y where y: "forward_layers (vit_transformer_encoders self) training ms 0
      (tokens cls pos' ?emb) = Inr y" "shape3 b (n + 1) e y"
    using forward_layers_ok [OF we t(4) pos(1), of training ms 0] by auto
  obtain xs where xs: "xs 0 = tokens cls pos' ?emb" "xs l = y"
    "\<forall>i<l. TransformerEncoder_forward (vit_transformer_encoders self ! i) training (ms (0 + i))
          (xs i) = Inr (xs (Suc i))"
    using forward_layers_trace [OF y(1)] le by blast
  have s: "select_1_0 y = Inr (map (\<lambda>m. m ! 0) y)" "shape2 b e (map (\<lambda>m. m ! 0) y)"
    using select_1_0_ok [OF y(2) pos(1)] by simp_all
  have c: "Linear_forward2 (vit_classifier self) (map (\<lambda>m. m ! 0) y)
      = Inr (map (affine (vit_classifier self)) (map (\<lambda>m. m ! 0) y))"
    "shape2 b k (map (affine (vit_classifier self)) (map (\<lambda>m. m ! 0) y))"
    using Linear_forward2_ok [OF wc s(2)] by simp_all
  have f: "VisionTransformer_forward self training ms x =
      Inr (map (\<lambda>t. affine (vit_classifier self) (t ! 0)) y)"
    by (simp add: VisionTransformer_forward_def t(3) y(1) s(1) c(1) comp_def)
  have sf: "shape2 b k (map (\<lambda>t. affine (vit_classifier self) (t ! 0)) y)"
    using c(2) by (simp add: comp_def)
  show ?thesis
    using t(1,2) lc 1 t(3,4) xs f sf
    by (intro exI [of _ cls] exI [of _ pos'] exI [of _ xs]) simp
qed

subsection \<open>The constructors\<close>

lemma andthen_eq_Inr: "andthen r f = Inr b \<longleftrightarrow> (\<exists>a. r = Inr a \<and> f a = Inr b)"
  by (cases r) simp_all

lemma andthen_eq_Inl: "andthen r f = Inl e \<longleftrightarrow> r = Inl e \<or> (\<exists>a. r = Inr a \<and> f a = Inl e)"
  by (cases r) simp_all

lemma Linear_init_Inr:
  "Linear_init i n rnd = Inr l \<Longrightarrow> wf_Linear (nat i) (nat n) l \<and> 0 \<le> i \<and> 0 \<le> n"
  by (auto simp: Linear_init_def wf_Linear_def shape2_iff split: if_splits)

lemma Linear_init_Inl: "Linear_init i n rnd = Inl e \<longleftrightarrow> e = RuntimeError \<and> (i < 0 \<or> n < 0)"
  by (auto simp: Linear_init_def)

lemma Linear_init_ok: "0 \<le> i \<Longrightarrow> 0 \<le> n \<Longrightarrow> \<exists>l. Linear_init i n rnd = Inr l"
  by (simp add: Linear_init_def)

lemma LayerNorm_init_Inr: "LayerNorm_init n = Inr nrm \<Longrightarrow> wf_LayerNorm (nat n) nrm \<and> 0 \<le> n"
  by (auto simp: LayerNorm_init_def wf_LayerNorm_def split: if_splits)

lemma LayerNorm_init_Inl: "LayerNorm_init n = Inl e \<longleftrightarrow> e = RuntimeError \<and> n < 0"
  by (auto simp: LayerNorm_init_def)

lemma LayerNorm_init_ok: "0 \<le> n \<Longrightarrow> \<exists>nrm. LayerNorm_init n = Inr nrm"
  by (simp add: LayerNorm_init_def)

lemma Dropout_init_default: "Dropout_init dropout_default = Inr \<lparr>dropout_p = 1 / 10\<rparr>"
  by (simp add: Dropout_init_def dropout_default_def)

lemma MultiHeadSelfAttention_init_Inr:
  assumes "MultiHeadSelfAttention_init embed_dim num_heads rnd = Inr a"
  shows "num_heads \<noteq> 0 \<and> embed_dim mod num_heads = 0 \<and> 0 \<le> embed_dim \<and>
         (0 < num_heads \<longrightarrow> 0 < embed_dim \<longrightarrow> wf_attn (nat embed_dim) a)"
  using assms
  by (auto simp: MultiHeadSelfAttention_init_def andthen_eq_Inr wf_attn_def
      dest!: Linear_init_Inr split: if_splits)

lemma MultiHeadSelfAttention_init_ok:
  assumes "num_heads \<noteq> 0" "embed_dim mod num_heads = 0" "0 \<le> embed_dim"
  shows "\<exists>a. MultiHeadSelfAttention_init embed_dim num_heads rnd = Inr a"
  using assms by (simp add: MultiHeadSelfAttention_init_def Linear_init_def)

lemma MultiHeadSelfAttention_init_Assertion:
  "MultiHeadSelfAttention_init embed_dim num_heads rnd = Inl AssertionError \<longleftrightarrow>
     num_heads \<noteq> 0 \<and> embed_dim mod num_heads \<noteq> 0"
  by (auto simp: MultiHeadSelfAttention_init_def andthen_eq_Inl Linear_init_Inl)

lemma TransformerEncoder_init_Inr:
  assumes "TransformerEncoder_init embed_dim num_heads mlp_dim dropout_default rnd = Inr enc"
  shows "num_heads \<noteq> 0 \<and> embed_dim mod num_heads = 0 \<and> 0 \<le> embed_dim \<and> 0 \<le> mlp_dim \<and>
         default_dropouts enc \<and>
         (0 < num_heads \<longrightarrow> 0 < embed_dim \<longrightarrow> wf_enc (nat embed_dim) (nat mlp_dim) enc)"
  using assms
  by (auto simp: TransformerEncoder_init_def andthen_eq_Inr wf_enc_def Dropout_init_default
      default_dropouts_def
      dest!: Linear_init_Inr MultiHeadSelfAttention_init_Inr LayerNorm_init_Inr)

lemma TransformerEncoder_init_ok:
  assumes "num_heads \<noteq> 0" "embed_dim mod num_heads = 0" "0 \<le> embed_dim" "0 \<le> mlp_dim"
  shows "\<exists>enc. TransformerEncoder_init embed_dim num_heads mlp_dim dropout_default rnd = Inr enc"
proof -
  obtain a where "MultiHeadSelfAttention_init embed_dim num_heads (sub 0 rnd) = Inr a"
    using MultiHeadSelfAttention_init_ok [OF assms(1,2,3)] by blast
  then show ?thesis
    using assms(3,4)
    by (simp add: TransformerEncoder_init_def Dropout_init_default Linear_init_def
        LayerNorm_init_def)
qed

lemma TransformerEncoder_init_Assertion:
  "TransformerEncoder_init embed_dim num_heads mlp_dim dropout_default rnd = Inl AssertionError \<longleftrightarrow>
     num_heads \<noteq> 0 \<and> embed_dim mod num_heads \<noteq> 0"
  by (auto simp: TransformerEncoder_init_def andthen_eq_Inl Linear_init_Inl LayerNorm_init_Inl
      MultiHeadSelfAttention_init_Assertion Dropout_init_default)

lemma sequence_Inr:
  "sequence rs = Inr as \<longleftrightarrow> rs = map Inr as"
proof (induction rs arbitrary: as)
  case Nil
  then show ?case by auto
next
  case (Cons r rs)
  then show ?case by (cases as) (auto simp: andthen_eq_Inr)
qed

lemma sequence_ok:
  "\<forall>r\<in>set rs. \<exists>a. r = Inr a \<Longrightarrow> \<exists>as. sequence rs = Inr as"
proof (induction rs)
  case Nil
  then show ?case by simp
next
  case (Cons r rs)
  then show ?case by (auto simp: andthen_eq_Inr)
qed

lemma sequence_Inl_first:
  "sequence (Inl e # rs) = Inl e"
  by simp

lemma sequence_Inl:
  "sequence rs = Inl e \<Longrightarrow> Inl e \<in> set rs"
proof (induction rs)
  case Nil
  then show ?case by simp
next
  case (Cons r rs)
  then show ?case by (auto simp: andthen_eq_Inl)
qed

lemma randn_Inr:
  "randn d0 d1 d2 rnd = Inr t \<Longrightarrow> shape3 (nat d0) (nat d1) (nat d2) t \<and> 0 \<le> d0 \<and> 0 \<le> d1 \<and> 0 \<le> d2"
  by (auto simp: randn_def shape3_iff shape2_iff split: if_splits)

lemma randn_ok: "0 \<le> d0 \<Longrightarrow> 0 \<le> d1 \<Longrightarrow> 0 \<le> d2 \<Longrightarrow> \<exists>t. randn d0 d1 d2 rnd = Inr t"
  by (simp add: randn_def)

lemma randn_Inl: "randn d0 d1 d2 rnd = Inl e \<longleftrightarrow> e = RuntimeError \<and> (d0 < 0 \<or> d1 < 0 \<or> d2 < 0)"
  by (auto simp: randn_def)

lemma patch_features_nonneg:
  "patch_size \<noteq> 0 \<Longrightarrow> 0 \<le> in_channels * patch_size * patch_size \<longleftrightarrow> 0 \<le> (in_channels :: int)"
proof -
  assume "patch_size \<noteq> 0"
  then have "0 < patch_size * patch_size" by (auto simp: zero_less_mult_iff)
  then show ?thesis
    by (simp add: mult.assoc zero_le_mult_iff)
qed

lemma PatchEmbedding_init_Inr:
  "PatchEmbedding_init patch_size in_channels embed_dim rnd = Inr pe \<Longrightarrow>
   pe_patch_size pe = patch_size \<and> pe_embed_dim pe = embed_dim \<and>
   wf_Linear (nat (in_channels * patch_size * patch_size)) (nat embed_dim) (pe_projection pe) \<and>
   0 \<le> in_channels * patch_size * patch_size \<and> 0 \<le> embed_dim"
  by (auto simp: PatchEmbedding_init_def andthen_eq_Inr dest!: Linear_init_Inr)

lemma PatchEmbedding_init_ok:
  "0 \<le> in_channels * patch_size * patch_size \<Longrightarrow> 0 \<le> embed_dim \<Longrightarrow>
   \<exists>pe. PatchEmbedding_init patch_size in_channels embed_dim rnd = Inr pe"
  by (simp add: PatchEmbedding_init_def Linear_init_def)

lemma PatchEmbedding_init_Inl:
  "PatchEmbedding_init patch_size in_channels embed_dim rnd = Inl e \<longleftrightarrow>
   e = RuntimeError \<and> (in_channels * patch_size * patch_size < 0 \<or> embed_dim < 0)"
  by (auto simp: PatchEmbedding_init_def andthen_eq_Inl Linear_init_Inl)

lemma Position_Encoding_init_Inr:
  "Position_Encoding_init embed_dim n_patches rnd = Inr pos \<Longrightarrow>
   shape3 1 (nat (n_patches + 1)) (nat embed_dim) (pos_position_encoding pos) \<and> 0 \<le> embed_dim"
  by (auto simp: Position_Encoding_init_def andthen_eq_Inr dest!: randn_Inr)

lemma Position_Encoding_init_ok:
  "0 \<le> n_patches \<Longrightarrow> 0 \<le> embed_dim \<Longrightarrow>
   \<exists>pos. Position_Encoding_init embed_dim n_patches rnd = Inr pos"
  by (simp add: Position_Encoding_init_def randn_def)

lemma Position_Encoding_init_Inl:
  "Position_Encoding_init embed_dim n_patches rnd = Inl e \<longleftrightarrow>
   e = RuntimeError \<and> (n_patches + 1 < 0 \<or> embed_dim < 0)"
  by (auto simp: Position_Encoding_init_def andthen_eq_Inl randn_Inl)

lemma encoders_Inr:
  assumes "sequence (map (\<lambda>k. TransformerEncoder_init embed_dim num_heads mlp_dim dropout_default
      (f k)) [0..<n]) = Inr encs"
  shows "length encs = n \<and> list_all default_dropouts encs \<and>
    (0 < n \<longrightarrow> num_heads \<noteq> 0 \<and> embed_dim mod num_heads = 0 \<and> 0 \<le> embed_dim \<and> 0 \<le> mlp_dim) \<and>
    (0 < num_heads \<longrightarrow> 0 < embed_dim \<longrightarrow> list_all (wf_enc (nat embed_dim) (nat mlp_dim)) encs)"
proof -
  have eq: "map (\<lambda>k. TransformerEncoder_init embed_dim num_heads mlp_dim dropout_default (f k))
      [0..<n] = map Inr encs"
    using assms by (simp add: sequence_Inr)
  then have len: "length encs = n"
    by (metis length_map length_upt diff_zero)
  have nth: "TransformerEncoder_init embed_dim num_heads mlp_dim dropout_default (f i)
      = Inr (encs ! i)" if "i < n" for i
  proof -
    have "map (\<lambda>k. TransformerEncoder_init embed_dim num_heads mlp_dim dropout_default (f k))
      [0..<n] ! i = map Inr encs ! i" using eq by simp
    then show ?thesis using that len by simp
  qed
  show ?thesis
    using len nth TransformerEncoder_init_Inr
    by (auto simp: list_all_length) blast+
qed

lemma encoders_ok:
  assumes "0 < n \<longrightarrow> num_heads \<noteq> 0 \<and> embed_dim mod num_heads = 0 \<and> 0 \<le> embed_dim \<and> 0 \<le> mlp_dim"
  shows "\<exists>encs. sequence (map (\<lambda>k. TransformerEncoder_init embed_dim num_heads mlp_dim
      dropout_default (f k)) [0..<n]) = Inr encs"
proof (rule sequence_ok, rule ballI)
  fix r
  assume "r \<in> set (map (\<lambda>k. TransformerEncoder_init embed_dim num_heads mlp_dim
      dropout_default (f k)) [0..<n])"
  then obtain i where "i < n"
    "r = TransformerEncoder_init embed_dim num_heads mlp_dim dropout_default (f i)" by auto
  then show "\<exists>a. r = Inr a"
    using assms TransformerEncoder_init_ok [of num_heads embed_dim mlp_dim "f i"] by auto
qed

lemma encoders_Assertion:
  "sequence (map (\<lambda>k. TransformerEncoder_init embed_dim num_heads mlp_dim dropout_default (f k))
      [0..<n]) = Inl AssertionError \<longleftrightarrow> 0 < n \<and> num_heads \<noteq> 0 \<and> embed_dim mod num_heads \<noteq> 0"
proof
  assume "sequence (map (\<lambda>k. TransformerEncoder_init embed_dim num_heads mlp_dim dropout_default
      (f k)) [0..<n]) = Inl AssertionError"
  from sequence_Inl [OF this] obtain i where "i < n"
    "TransformerEncoder_init embed_dim num_heads mlp_dim dropout_default (f i)
       = Inl AssertionError" by auto
  then show "0 < n \<and> num_heads \<noteq> 0 \<and> embed_dim mod num_heads \<noteq> 0"
    by (auto simp: TransformerEncoder_init_Assertion)
next
  assume a: "0 < n \<and> num_heads \<noteq> 0 \<and> embed_dim mod num_heads \<noteq> 0"
  then have "[0..<n] = 0 # [1..<n]" by (simp add: upt_conv_Cons)
  moreover have "TransformerEncoder_init embed_dim num_heads mlp_dim dropout_default (f 0)
       = Inl AssertionError"
    using a by (simp add: TransformerEncoder_init_Assertion)
  ultimately show "sequence (map (\<lambda>k. TransformerEncoder_init embed_dim num_heads mlp_dim
      dropout_default (f k)) [0..<n]) = Inl AssertionError"
    by simp
qed

lemma VisionTransformer_init_Inr:
  assumes "VisionTransformer_init img_size in_channels patch_size embed_dim mlp_dim num_heads
      num_layers num_classes rnd = Inr self"
  shows "patch_size \<noteq> 0 \<and> 0 \<le> in_channels \<and> 0 \<le> embed_dim \<and> 0 \<le> num_classes \<and>
    (0 < num_layers \<longrightarrow> num_heads \<noteq> 0 \<and> embed_dim mod num_heads = 0 \<and> 0 \<le> mlp_dim) \<and>
    vit_patch_size self = patch_size \<and>
    length (vit_transformer_encoders self) = nat num_layers \<and>
    list_all default_dropouts (vit_transformer_encoders self) \<and>
    (0 < patch_size \<longrightarrow> 0 < num_heads \<longrightarrow> 0 < embed_dim \<longrightarrow>
       wf_vit (nat in_channels) (nat patch_size) (nat embed_dim) (nat mlp_dim)
         (nat ((img_size div patch_size) * (img_size div patch_size))) (nat num_layers)
         (nat num_classes) self)"
proof -
  let ?n = "(img_size div patch_size) * (img_size div patch_size)"
  have ps: "patch_size \<noteq> 0"
    using assms by (auto simp: VisionTransformer_init_def split: if_splits)
  have n0: "0 \<le> ?n" by simp
  obtain pe pos cls encs cl where
    pe: "PatchEmbedding_init patch_size in_channels embed_dim (sub 0 rnd) = Inr pe" and
    pos: "Position_Encoding_init embed_dim ?n (sub 1 rnd) = Inr pos" and
    cls: "randn 1 1 embed_dim (sub 2 rnd) = Inr cls" and
    encs: "sequence (map (\<lambda>k. TransformerEncoder_init embed_dim num_heads mlp_dim
        dropout_default (sub k (sub 3 rnd))) [0..<nat num_layers]) = Inr encs" and
    cl: "Linear_init embed_dim num_classes (sub 4 rnd) = Inr cl" and
    self: "self = \<lparr>vit_patch_size = patch_size, vit_patch_embedding = pe,
             vit_position_encoding = pos, vit_classification_token = cls,
             vit_transformer_encoders = encs, vit_classifier = cl\<rparr>"
    using assms ps unfolding VisionTransformer_init_def Let_def
    by (auto simp: andthen_eq_Inr)
  note PE = PatchEmbedding_init_Inr [OF pe]
  note PO = Position_Encoding_init_Inr [OF pos]
  note CL = randn_Inr [OF cls]
  note EN = encoders_Inr [OF encs]
  note LI = Linear_init_Inr [OF cl]
  have c0: "0 \<le> in_channels" using PE ps by (simp add: patch_features_nonneg)
  have feat: "nat (in_channels * patch_size * patch_size)
      = nat in_channels * (nat patch_size * nat patch_size)" if "0 < patch_size"
    using that c0 by (simp add: nat_mult_distrib mult.assoc)
  have np: "nat (?n + 1) = nat ?n + 1" using n0 by (simp add: nat_add_distrib)
  have "wf_vit (nat in_channels) (nat patch_size) (nat embed_dim) (nat mlp_dim) (nat ?n)
      (nat num_layers) (nat num_classes) self"
    if "0 < patch_size" "0 < num_heads" "0 < embed_dim"
    unfolding wf_vit_def self
    using that PE PO CL EN LI feat np by simp
  then show ?thesis
    using ps c0 PE EN LI by (auto simp: self)
qed

lemma VisionTransformer_init_ok:
  assumes "patch_size \<noteq> 0" "0 \<le> in_channels" "0 \<le> embed_dim" "0 \<le> num_classes"
    "0 < num_layers \<longrightarrow> num_heads \<noteq> 0 \<and> embed_dim mod num_heads = 0 \<and> 0 \<le> mlp_dim"
  shows "\<exists>self. VisionTransformer_init img_size in_channels patch_size embed_dim mlp_dim num_heads
      num_layers num_classes rnd = Inr self"
proof -
  let ?n = "(img_size div patch_size) * (img_size div patch_size)"
  have n0: "0 \<le> ?n" by simp
  obtain pe where pe: "PatchEmbedding_init patch_size in_channels embed_dim (sub 0 rnd) = Inr pe"
    using PatchEmbedding_init_ok assms(1,2,3) patch_features_nonneg by blast
  obtain pos where pos: "Position_Encoding_init embed_dim ?n (sub 1 rnd) = Inr pos"
    using Position_Encoding_init_ok [OF n0 assms(3)] by blast
  obtain cls where cls: "randn 1 1 embed_dim (sub 2 rnd) = Inr cls"
    using randn_ok [of 1 1 embed_dim] assms(3) by auto
  have "0 < nat num_layers \<longrightarrow>
      num_heads \<noteq> 0 \<and> embed_dim mod num_heads = 0 \<and> 0 \<le> embed_dim \<and> 0 \<le> mlp_dim"
    using assms(3,5) by simp
  from encoders_ok [OF this, of "\<lambda>k. sub k (sub 3 rnd)"]
  obtain encs where encs: "sequence (map (\<lambda>k. TransformerEncoder_init embed_dim num_heads mlp_dim
        dropout_default (sub k (sub 3 rnd))) [0..<nat num_layers]) = Inr encs"
    by blast
  obtain cl where cl: "Linear_init embed_dim num_classes (sub 4 rnd) = Inr cl"
    using Linear_init_ok [OF assms(3,4)] by blast
  show ?thesis
    unfolding VisionTransformer_init_def Let_def
    using assms(1) pe pos cls encs cl by simp
qed

lemma VisionTransformer_init_Assertion:
  "VisionTransformer_init img_size in_channels patch_size embed_dim mlp_dim num_heads
      num_layers num_classes rnd = Inl AssertionError \<longleftrightarrow>
   patch_size \<noteq> 0 \<and> 0 \<le> in_channels \<and> 0 \<le> embed_dim \<and> 0 < num_layers \<and>
   num_heads \<noteq> 0 \<and> embed_dim mod num_heads \<noteq> 0"
proof (cases "patch_size = 0")
  case True
  then show ?thesis by (simp add: VisionTransformer_init_def)
next
  case ps: False
  let ?n = "(img_size div patch_size) * (img_size div patch_size)"
  have n0: "0 \<le> ?n" by simp
  show ?thesis
  proof (cases "0 \<le> in_channels \<and> 0 \<le> embed_dim")
    case False
    then have "in_channels * patch_size * patch_size < 0 \<or> embed_dim < 0"
      using patch_features_nonneg [OF ps, of in_channels] by auto
    then have "PatchEmbedding_init patch_size in_channels embed_dim (sub 0 rnd) = Inl RuntimeError"
      by (simp add: PatchEmbedding_init_Inl)
    then show ?thesis
      using False ps by (auto simp: VisionTransformer_init_def)
  next
    case True
    obtain pe where pe: "PatchEmbedding_init patch_size in_channels embed_dim (sub 0 rnd) = Inr pe"
      using PatchEmbedding_init_ok True ps patch_features_nonneg by blast
    obtain pos where pos: "Position_Encoding_init embed_dim ?n (sub 1 rnd) = Inr pos"
      using Position_Encoding_init_ok [OF n0] True by blast
    obtain cls where cls: "randn 1 1 embed_dim (sub 2 rnd) = Inr cls"
      using randn_ok [of 1 1 embed_dim] True by auto
    have "VisionTransformer_init img_size in_channels patch_size embed_dim mlp_dim num_heads
        num_layers num_classes rnd = Inl AssertionError \<longleftrightarrow>
      sequence (map (\<lambda>k. TransformerEncoder_init embed_dim num_heads mlp_dim
        dropout_default (sub k (sub 3 rnd))) [0..<nat num_layers]) = Inl AssertionError"
      unfolding VisionTransformer_init_def Let_def
      using ps pe pos cls by (auto simp: andthen_eq_Inl Linear_init_Inl)
    then show ?thesis
      using True ps by (simp add: encoders_Assertion)
  qed
qed

subsection \<open>Images smaller than a patch, and the entries of a flattened patch\<close>

lemma PatchEmbedding_forward_small:
  assumes sh: "shape4 B C H W x" and pos: "0 < B" "0 < C" "0 < p"
    and ps: "pe_patch_size self = int p" and small: "H < p \<or> W < p"
  shows "PatchEmbedding_forward self x = Inl RuntimeError"
proof (cases "H < p")
  case True
  have "size2 x = H" using sh pos size2_shape4 by blast
  then have "unfold_dim2 (int p) (int p) x = Inl RuntimeError"
    using True by (simp add: unfold_dim2_def)
  then show ?thesis
    using pos(3) by (simp add: PatchEmbedding_forward_def ps)
next
  case False
  then have le: "p \<le> H" and w: "W < p" using small by simp_all
  have lx: "length x = B" and lc: "\<forall>c\<in>set x. length c = C"
    using sh by (auto simp: shape4_iff shape3_iff)
  let ?x1 = "map (map (\<lambda>m. map (\<lambda>i. map (\<lambda>w. map (\<lambda>u. m ! (i * p + u) ! w) [0..<p]) [0..<W])
                 [0..<H div p])) x"
  have u2: "unfold_dim2 (int p) (int p) x = Inr ?x1"
    using unfold_dim2_ok [OF sh pos(1,2,3) le] .
  have "0 < H div p" using le pos(3) by (simp add: div_greater_zero_iff)
  moreover have "shape5 B C (H div p) W p ?x1"
    by (rule shape5_unfold [OF lx lc])
  ultimately have "size3 ?x1 = W"
    using size3_shape5 pos(1,2) by blast
  then have "unfold_dim3 (int p) (int p) ?x1 = Inl RuntimeError"
    using w by (simp add: unfold_dim3_def)
  then show ?thesis
    using pos(3) by (simp add: PatchEmbedding_forward_def ps u2)
qed

lemma nth_concat_uniform:
  "\<forall>x\<in>set xs. length (f x) = n \<Longrightarrow> k < length xs \<Longrightarrow> r < n \<Longrightarrow>
   concat (map f xs) ! (k * n + r) = f (xs ! k) ! r"
proof (induction xs arbitrary: k)
  case Nil
  then show ?case by simp
next
  case (Cons a xs)
  show ?case
  proof (cases k)
    case 0
    then show ?thesis using Cons.prems by (simp add: nth_append)
  next
    case (Suc k')
    then have "concat (map f xs) ! (k' * n + r) = f (xs ! k') ! r"
      using Cons.IH [of k'] Cons.prems by simp
    then show ?thesis using Suc Cons.prems by (simp add: nth_append)
  qed
qed

lemma nth_flatten_patch:
  assumes "ch < length img" "u < p" "v < p"
  shows "flatten_patch p img i j ! (ch * (p * p) + (u * p + v)) = img ! ch ! (i * p + u) ! (j * p + v)"
proof -
  let ?f = "\<lambda>m. concat (map (\<lambda>u. map (\<lambda>v. m ! (i * p + u) ! (j * p + v)) [0..<p]) [0..<p])"
  have len: "\<forall>m\<in>set img. length (?f m) = p * p"
    by (simp add: length_concat_grid)
  have r: "u * p + v < p * p"
  proof -
    have "Suc u * p \<le> p * p" using assms(2) by (intro mult_le_mono1) simp
    then show ?thesis using assms(3) by simp
  qed
  have "?f m ! (u * p + v) = m ! (i * p + (u * p + v) div p) ! (j * p + (u * p + v) mod p)"
    for m :: "real list list"
    using r by (rule nth_concat_grid)
  then have inner: "?f m ! (u * p + v) = m ! (i * p + u) ! (j * p + v)" for m :: "real list list"
    using assms(3) by simp
  have "concat (map ?f img) ! (ch * (p * p) + (u * p + v)) = ?f (img ! ch) ! (u * p + v)"
    using len assms(1) r by (rule nth_concat_uniform)
  then show ?thesis
    unfolding flatten_patch_def inner .
qed

lemma length_flatten_patch: "length (flatten_patch p img i j) = length img * (p * p)"
proof -
  have "length (concat (map (\<lambda>u. map (f u) [0..<p]) [0..<p])) = p * p" for f :: "nat \<Rightarrow> nat \<Rightarrow> real"
    by (rule length_concat_grid)
  then show ?thesis
    unfolding flatten_patch_def by (subst length_concat_uniform [where n = "p * p"]) auto
qed

lemma nth_patch_embed:
  assumes "bi < length x" "i < nh" "j < nw"
  shows "patch_embed l p nh nw x ! bi ! (i * nw + j) = affine l (flatten_patch p (x ! bi) i j)"
proof -
  have lt: "i * nw + j < nh * nw"
  proof -
    have "Suc i * nw \<le> nh * nw" using assms(2) by (intro mult_le_mono1) simp
    then show ?thesis using assms(3) by simp
  qed
  then show ?thesis
    using assms by (simp add: patch_embed_def length_patches nth_patches)
qed

subsection \<open>Softmax in exact arithmetic\<close>

lemma sum_list_exp_pos: "v \<noteq> [] \<Longrightarrow> 0 < sum_list (map exp (v :: real list))"
proof (induction v)
  case Nil
  then show ?case by simp
next
  case (Cons a v)
  show ?case
  proof (cases "v = []")
    case True
    then show ?thesis by simp
  next
    case False
    then have "0 < sum_list (map exp v)" by (rule Cons.IH)
    then show ?thesis by (simp add: add_pos_pos)
  qed
qed

lemma sum_list_divide: "sum_list (map (\<lambda>a. f a / (c :: real)) v) = sum_list (map f v) / c"
  by (induction v) (simp_all add: add_divide_distrib)

lemma softmax1_sum: "v \<noteq> [] \<Longrightarrow> sum_list (softmax1 v) = 1"
  using sum_list_exp_pos [of v] by (simp add: softmax1_def sum_list_divide)

lemma softmax1_shift:
  "softmax1 v = map (\<lambda>a. exp (a - c) / sum_list (map (\<lambda>b. exp (b - c)) v)) v"
proof -
  have "sum_list (map (\<lambda>b. exp (b - c)) v) = sum_list (map exp v) / exp c"
    using sum_list_divide [of exp "exp c" v] by (simp add: exp_diff)
  then show ?thesis
    by (simp add: softmax1_def exp_diff)
qed

subsection \<open>Attention weights\<close>

lemma stable_softmax1_eq: "stable_softmax1 v = softmax1 v"
  unfolding stable_softmax1_def by (rule softmax1_shift [symmetric])

lemma stable_softmax_eq: "stable_softmax x = softmax x"
  by (simp add: stable_softmax_def softmax_def stable_softmax1_eq [abs_def])

lemma matmul2_transpose:
  assumes k: "shape2 s d k" and pos: "0 < s" "0 < d"
  shows "matmul2 q (transpose_last2 k) = map (\<lambda>r. map (\<lambda>kj. dot r kj) k) q"
proof -
  have sz: "size1 k = d" using k pos(1) by (rule size1_shape2)
  have lk: "length k = s" using k by (simp add: shape2_iff)
  have t: "transpose_last2 k = map (\<lambda>j. map (\<lambda>r. r ! j) k) [0..<d]"
    by (simp add: transpose_last2_def sz)
  have st: "size1 (transpose_last2 k) = s"
    unfolding t using pos(2) lk by (cases d) (simp_all add: size1_def upt_conv_Cons del: upt_Suc)
  have col: "map (\<lambda>c. c ! j) (transpose_last2 k) = k ! j" if "j < s" for j
  proof -
    have "length (k ! j) = d" using shape2_nth [OF k that] .
    moreover have "map (\<lambda>c. c ! j) (transpose_last2 k) = map (\<lambda>i. k ! j ! i) [0..<d]"
      unfolding t using that lk by simp
    ultimately show ?thesis using map_nth [of "k ! j"] by simp
  qed
  have "map (\<lambda>j. dot r (map (\<lambda>c. c ! j) (transpose_last2 k))) [0..<s] = map (\<lambda>kj. dot r kj) k"
    for r
  proof -
    have "map (\<lambda>j. dot r (map (\<lambda>c. c ! j) (transpose_last2 k))) [0..<s]
        = map (\<lambda>j. dot r (k ! j)) [0..<length k]"
      using col lk by simp
    also have "\<dots> = map (\<lambda>kj. dot r kj) k" by (rule map_nth_fun)
    finally show ?thesis .
  qed
  then show ?thesis
    by (simp add: matmul2_def st)
qed

lemma forward_scores_eq:
  assumes K: "shape4 b h s d K" and pos: "0 < s" "0 < d"
  shows "forward_scores a Q K = scaled_scores (sqrt (real_of_int (attn_head_dim a))) Q K"
proof -
  let ?c = "sqrt (real_of_int (attn_head_dim a))"
  have head: "map (map (\<lambda>x. x / ?c)) (matmul2 Qh (transpose_last2 Kh))
      = map (\<lambda>q. map (\<lambda>k. dot q k / ?c) Kh) Qh" if "shape2 s d Kh" for Qh Kh
    by (simp add: matmul2_transpose [OF that pos] comp_def)
  have "\<forall>Kb\<in>set K. \<forall>Kh\<in>set Kb. shape2 s d Kh"
    using K by (simp add: shape4_iff shape3_iff)
  then show ?thesis
    unfolding forward_scores_def div_scalar_def matmul_def transpose_m2_m1_def scaled_scores_def
    by (auto simp: zip_map2 head dest!: set_zip_rightD)
qed

lemma forward_attention_eq:
  assumes "shape4 b h s d K" "0 < s" "0 < d"
  shows "forward_attention a Q K
    = stable_softmax (scaled_scores (sqrt (real_of_int (attn_head_dim a))) Q K)"
  by (simp add: forward_attention_def forward_scores_eq [OF assms] stable_softmax_eq)


lemma sum_list_approx:
  "length w = length p \<Longrightarrow> \<forall>i<length p. \<bar>w ! i - p ! i\<bar> \<le> \<delta> * p ! i \<Longrightarrow>
   \<bar>sum_list w - sum_list p\<bar> \<le> \<delta> * sum_list (p :: real list)"
proof (induction w p rule: list_induct2)
  case Nil
  then show ?case by simp
next
  case (Cons x xs y ys)
  have hd: "\<bar>x - y\<bar> \<le> \<delta> * y" using Cons.prems by auto
  have "\<forall>i<length ys. \<bar>xs ! i - ys ! i\<bar> \<le> \<delta> * ys ! i"
  proof (intro allI impI)
    fix i assume "i < length ys"
    then have "\<bar>(x # xs) ! Suc i - (y # ys) ! Suc i\<bar> \<le> \<delta> * (y # ys) ! Suc i"
      using Cons.prems by (metis Suc_less_eq length_Cons)
    then show "\<bar>xs ! i - ys ! i\<bar> \<le> \<delta> * ys ! i" by simp
  qed
  then have tl: "\<bar>sum_list xs - sum_list ys\<bar> \<le> \<delta> * sum_list ys" by (rule Cons.IH)
  have "\<bar>sum_list (x # xs) - sum_list (y # ys)\<bar> \<le> \<bar>x - y\<bar> + \<bar>sum_list xs - sum_list ys\<bar>"
    by simp
  also have "\<dots> \<le> \<delta> * y + \<delta> * sum_list ys" using hd tl by simp
  finally show ?case by (simp add: distrib_left)
qed

text \<open>
  A row computed with rounding: when every entry of \<open>w\<close> has relative error at most \<open>\<delta>\<close>
  against the exact softmax, the sum of \<open>w\<close> is within \<open>\<delta>\<close> of \<open>1\<close>.
\<close>

lemma softmax1_sum_approx:
  assumes "v \<noteq> []" and "length w = length v"
    and "\<forall>i<length v. \<bar>w ! i - softmax1 v ! i\<bar> \<le> \<delta> * softmax1 v ! i"
  shows "\<bar>sum_list w - 1\<bar> \<le> \<delta>"
proof -
  have lp: "length (softmax1 v) = length v" by (simp add: softmax1_def)
  have "\<bar>sum_list w - sum_list (softmax1 v)\<bar> \<le> \<delta> * sum_list (softmax1 v)"
    using assms(2,3) lp by (intro sum_list_approx) simp_all
  then show ?thesis
    using softmax1_sum [OF assms(1)] by simp
qed


subsection \<open>The small concrete modules\<close>

lemma wf_ex_linear: "wf_Linear 1 1 (ex_linear w b)"
  by (simp add: wf_Linear_def ex_linear_def shape2_def)

lemma wf_ex_attn: "wf_attn 1 ex_attn"
  using wf_ex_linear by (simp add: wf_attn_def ex_attn_def)

lemma wf_ex_enc: "wf_enc 1 1 ex_enc"
  using wf_ex_attn wf_ex_linear by (simp add: wf_enc_def ex_enc_def wf_LayerNorm_def ex_norm_def)

lemma shape3_single: "shape3 1 1 1 [[[a]]]"
  by (simp add: shape3_def shape2_def)

lemma ex_vit_init: "VisionTransformer_init 4 1 2 2 2 1 2 2 ex_rnd = Inr ex_vit"
proof -
  have "\<exists>self. VisionTransformer_init 4 1 2 2 2 1 2 2 ex_rnd = Inr self"
    by (rule VisionTransformer_init_ok) simp_all
  then show ?thesis by (auto simp: ex_vit_def)
qed

lemma wf_ex_vit: "wf_vit 1 2 2 2 4 2 2 ex_vit"
  using VisionTransformer_init_Inr [OF ex_vit_init] by simp

lemma shape4_replicate: "shape4 b c h w (replicate b (replicate c (replicate h (replicate w a))))"
  by (simp add: shape4_iff shape3_iff shape2_iff)

lemma shape4_ex_img: "shape4 1 c h w (ex_img c h w)"
  by (simp add: ex_img_def shape4_iff shape3_iff shape2_iff)

section \<open>The claims\<close>

text \<open>
  C1. The claim: in \<open>MultiHeadSelfAttention.forward\<close> the Key projection uses the key
  parameters and the Value projection uses the value parameters. The source computes both
  with \<open>self.query\<close>: at the module \<open>ex_attn\<close> (query weight 1, key weight 2, value weight 3)
  and the input \<open>[[[1]]]\<close>, the tensors \<open>K\<close> and \<open>V\<close> of \<open>forward\<close> are \<open>[[[1]]]\<close>, whereas the
  key projection gives \<open>[[[2]]]\<close> and the value projection gives \<open>[[[3]]]\<close>.
\<close>

theorem C1_key_value_projections_at_ex_attn:
  "forward_K ex_attn [[[1]]] = Inr [[[1]]] \<and>
   Linear_forward (attn_key ex_attn) [[[1]]] = Inr [[[2]]] \<and>
   forward_V ex_attn [[[1]]] = Inr [[[1]]] \<and>
   Linear_forward (attn_value ex_attn) [[[1]]] = Inr [[[3]]]"
  by (simp add: forward_K_def forward_V_def Linear_forward_def ex_attn_def ex_linear_def
      affine_def dot_def)

text \<open>
  C2. \<open>Q\<close>, \<open>K\<close> and \<open>V\<close> of \<open>MultiHeadSelfAttention.forward\<close> are all the query projection
  of the input, and the result of \<open>forward\<close> does not change when the key and value
  projections of the module are replaced by any others.
\<close>

theorem C2_key_value_parameters_unused:
  "forward_Q self x = Linear_forward (attn_query self) x \<and>
   forward_K self x = Linear_forward (attn_query self) x \<and>
   forward_V self x = Linear_forward (attn_query self) x \<and>
   MultiHeadSelfAttention_forward (self\<lparr>attn_key := k, attn_value := v\<rparr>) x =
     MultiHeadSelfAttention_forward self x"
  by (simp add: MultiHeadSelfAttention_forward_def forward_Q_def forward_K_def forward_V_def
      forward_attention_def forward_scores_def)

theorem C2_witness:
  "forward_K ex_attn [[[1]]] = Linear_forward (attn_query ex_attn) [[[1]]] \<and>
   MultiHeadSelfAttention_forward
     (ex_attn\<lparr>attn_key := ex_linear 5 1, attn_value := ex_linear 7 2\<rparr>) [[[1]]] =
     MultiHeadSelfAttention_forward ex_attn [[[1]]]"
  using C2_key_value_parameters_unused
    [where self = ex_attn and x = "[[[1]]]" and k = "ex_linear 5 1" and v = "ex_linear 7 2"]
  by simp

text \<open>
  C3. For a model with the parameter shapes of a configuration (\<open>wf_vit\<close>) and a batch of
  \<open>b \<ge> 1\<close> images of shape \<open>[c, H, W]\<close> with the configured number of channels and of
  patches, \<open>VisionTransformer.forward\<close> computes: the patch embedding of the batch; the token
  sequence \<open>xs 0\<close>, in which the one class token \<open>cls\<close> (the parameter has shape
  \<open>[1, 1, e]\<close>) stands in front of the patch embeddings of every image and the positional
  encoding is added; the outputs \<open>xs 1, \<dots>, xs l\<close> of the \<open>l\<close> encoder blocks, block \<open>i\<close>
  applied to \<open>xs i\<close>; and the classification head applied to position \<open>0\<close> of \<open>xs l\<close>, which
  gives \<open>k\<close> logits for every image.
\<close>

theorem C3_forward_pipeline:
  assumes "wf_vit c p e m n l k self"
    and "shape4 b c H W x" and "0 < b" and "0 < c" and "p \<le> H" and "p \<le> W"
    and "H div p * (W div p) = n"
  shows "\<exists>cls pos xs.
      vit_classification_token self = [[cls]] \<and> length cls = e \<and>
      pos_position_encoding (vit_position_encoding self) = [pos] \<and>
      PatchEmbedding_forward (vit_patch_embedding self) x =
        Inr (patch_embed (pe_projection (vit_patch_embedding self)) p (H div p) (W div p) x) \<and>
      forward_tokens self x = Inr (xs 0) \<and>
      xs 0 = tokens cls pos
               (patch_embed (pe_projection (vit_patch_embedding self)) p (H div p) (W div p) x) \<and>
      shape3 b (n + 1) e (xs 0) \<and>
      (\<forall>i<l. TransformerEncoder_forward (vit_transformer_encoders self ! i) training (ms i) (xs i)
               = Inr (xs (Suc i))) \<and>
      VisionTransformer_forward self training ms x =
        Inr (map (\<lambda>t. affine (vit_classifier self) (t ! 0)) (xs l)) \<and>
      shape2 b k (map (\<lambda>t. affine (vit_classifier self) (t ! 0)) (xs l))"
  using assms by (rule VisionTransformer_forward_ok)

theorem C3_witness:
  "wf_vit 1 2 2 2 4 2 2 ex_vit \<and> shape4 1 1 4 4 (ex_img 1 4 4) \<and> (4::nat) div 2 * (4 div 2) = 4 \<and>
   (\<exists>cls pos xs.
      vit_classification_token ex_vit = [[cls]] \<and> length cls = 2 \<and>
      pos_position_encoding (vit_position_encoding ex_vit) = [pos] \<and>
      PatchEmbedding_forward (vit_patch_embedding ex_vit) (ex_img 1 4 4) =
        Inr (patch_embed (pe_projection (vit_patch_embedding ex_vit)) 2 (4 div 2) (4 div 2)
               (ex_img 1 4 4)) \<and>
      forward_tokens ex_vit (ex_img 1 4 4) = Inr (xs 0) \<and>
      xs 0 = tokens cls pos
               (patch_embed (pe_projection (vit_patch_embedding ex_vit)) 2 (4 div 2) (4 div 2)
                  (ex_img 1 4 4)) \<and>
      shape3 1 (4 + 1) 2 (xs 0) \<and>
      (\<forall>i<2. TransformerEncoder_forward (vit_transformer_encoders ex_vit ! i) True (ex_ms i) (xs i)
               = Inr (xs (Suc i))) \<and>
      VisionTransformer_forward ex_vit True ex_ms (ex_img 1 4 4) =
        Inr (map (\<lambda>t. affine (vit_classifier ex_vit) (t ! 0)) (xs 2)) \<and>
      shape2 1 2 (map (\<lambda>t. affine (vit_classifier ex_vit) (t ! 0)) (xs 2)))"
proof -
  have d: "(4::nat) div 2 * (4 div 2) = 4" by simp
  have p: "(0::nat) < 1" "(2::nat) \<le> 4" by simp_all
  show ?thesis
    using C3_forward_pipeline [OF wf_ex_vit shape4_ex_img p(1) p(1) p(2) p(2) d, of True ex_ms]
      wf_ex_vit shape4_ex_img [of 1 4 4] d
    by (intro conjI)
qed

text \<open>
  C4. The model constructed with \<open>img_size = 224\<close>, \<open>in_channels = 3\<close>, \<open>patch_size = 16\<close>,
  \<open>embed_dim = 768\<close>, \<open>mlp_dim = 3072\<close>, \<open>num_heads = 12\<close>, \<open>num_layers = 12\<close>,
  \<open>num_classes = 10\<close> (any random draws) has a positional encoding of shape \<open>[1, 197, 768]\<close>;
  on every batch of shape \<open>[32, 3, 224, 224]\<close> its patch embedding has shape
  \<open>[32, 196, 768]\<close>, the token sequence that enters the encoder stack has shape
  \<open>[32, 197, 768]\<close>, and \<open>forward\<close> returns a tensor of shape \<open>[32, 10]\<close>.
\<close>

theorem C4_end_to_end_shapes:
  assumes "shape4 32 3 224 224 x"
  shows "\<exists>self emb toks out.
      VisionTransformer_init 224 3 16 768 3072 12 12 10 rnd = Inr self \<and>
      shape3 1 197 768 (pos_position_encoding (vit_position_encoding self)) \<and>
      PatchEmbedding_forward (vit_patch_embedding self) x = Inr emb \<and> shape3 32 196 768 emb \<and>
      forward_tokens self x = Inr toks \<and> shape3 32 197 768 toks \<and>
      VisionTransformer_forward self training ms x = Inr out \<and> shape2 32 10 out"
proof -
  obtain self where init: "VisionTransformer_init 224 3 16 768 3072 12 12 10 rnd = Inr self"
    using VisionTransformer_init_ok [of 16 3 768 10 12 12 3072 224 rnd] by auto
  have wf: "wf_vit 3 16 768 3072 196 12 10 self"
    using VisionTransformer_init_Inr [OF init] by simp
  have d: "(224::nat) div 16 * (224 div 16) = 196" by simp
  have p: "(0::nat) < 32" "(0::nat) < 3" "(16::nat) \<le> 224" by simp_all
  obtain xs :: "nat \<Rightarrow> tensor3" where f:
    "PatchEmbedding_forward (vit_patch_embedding self) x =
       Inr (patch_embed (pe_projection (vit_patch_embedding self)) 16 (224 div 16) (224 div 16) x)"
    "forward_tokens self x = Inr (xs 0)"
    "shape3 32 (196 + 1) 768 (xs 0)"
    "VisionTransformer_forward self training ms x =
        Inr (map (\<lambda>t. affine (vit_classifier self) (t ! 0)) (xs 12))"
    "shape2 32 10 (map (\<lambda>t. affine (vit_classifier self) (t ! 0)) (xs 12))"
    using VisionTransformer_forward_ok [OF wf assms p(1) p(2) p(3) p(3) d, of training ms]
    by blast
  have wl: "wf_Linear (3 * (16 * 16)) 768 (pe_projection (vit_patch_embedding self))"
    using wf by (simp add: wf_vit_def)
  have lx: "length x = 32" using assms by (simp add: shape4_iff)
  have se: "shape3 32 196 768
      (patch_embed (pe_projection (vit_patch_embedding self)) 16 (224 div 16) (224 div 16) x)"
    using shape3_embed [OF wl lx, of "224 div 16" "224 div 16" 16] by simp
  have sp: "shape3 1 197 768 (pos_position_encoding (vit_position_encoding self))"
    using wf by (simp add: wf_vit_def)
  show ?thesis
    using init sp f(1) se f(2) f(3) f(4) f(5) by (intro exI conjI) simp_all
qed

theorem C4_witness:
  "shape4 32 3 224 224 (replicate 32 (replicate 3 (replicate 224 (replicate 224 0)))) \<and>
   (\<exists>self emb toks out.
      VisionTransformer_init 224 3 16 768 3072 12 12 10 ex_rnd = Inr self \<and>
      shape3 1 197 768 (pos_position_encoding (vit_position_encoding self)) \<and>
      PatchEmbedding_forward (vit_patch_embedding self)
        (replicate 32 (replicate 3 (replicate 224 (replicate 224 0)))) = Inr emb \<and>
      shape3 32 196 768 emb \<and>
      forward_tokens self (replicate 32 (replicate 3 (replicate 224 (replicate 224 0))))
        = Inr toks \<and>
      shape3 32 197 768 toks \<and>
      VisionTransformer_forward self True ex_ms
        (replicate 32 (replicate 3 (replicate 224 (replicate 224 0)))) = Inr out \<and>
      shape2 32 10 out)"
  using C4_end_to_end_shapes [where rnd = ex_rnd and training = True and ms = ex_ms,
      OF shape4_replicate [of 32 3 224 224 0]] shape4_replicate [of 32 3 224 224 0]
  by (intro conjI)

text \<open>
  C5. The claim: an input whose height or width is not an exact multiple of \<open>patch_size\<close>
  makes \<open>forward\<close> fail. The model \<open>ex_vit\<close> has \<open>patch_size = 2\<close> and \<open>img_size = 4\<close>; on one
  image of height and width \<open>5\<close>, which is not a multiple of \<open>2\<close>, \<open>forward\<close> does not fail:
  \<open>unfold\<close> takes the two whole patches of every row and column and leaves the last pixel row
  and column out.
\<close>

theorem C5_counterexample:
  "vit_patch_size ex_vit = 2 \<and> (5::nat) mod 2 \<noteq> 0 \<and>
   \<not> isl (VisionTransformer_forward ex_vit True ex_ms (ex_img 1 5 5))"
proof -
  have d: "(5::nat) div 2 * (5 div 2) = 4" by simp
  have p: "(0::nat) < 1" "(2::nat) \<le> 5" by simp_all
  have "\<exists>out. VisionTransformer_forward ex_vit True ex_ms (ex_img 1 5 5) = Inr out"
    using VisionTransformer_forward_ok [OF wf_ex_vit shape4_ex_img p(1) p(1) p(2) p(2) d,
        of True ex_ms]
    by blast
  moreover have "vit_patch_size ex_vit = 2"
    using wf_ex_vit by (simp add: wf_vit_def)
  ultimately show ?thesis by auto
qed

text \<open>
  C5, amended. \<open>forward\<close> does not validate the shape of its input beforehand. For a model
  with the parameter shapes of a configuration with \<open>n \<ge> 1\<close> patches and a non-empty batch
  of shape \<open>[b, c', H, W]\<close>, \<open>forward\<close> raises a \<open>RuntimeError\<close> and returns no tensor when the
  channel count \<open>c'\<close> differs from \<open>in_channels\<close> (raised by the projection, after the patches
  have been extracted), when \<open>H\<close> or \<open>W\<close> is smaller than \<open>patch_size\<close> (raised by \<open>unfold\<close>),
  or when the number of whole patches \<open>(H div patch_size) * (W div patch_size)\<close> differs from
  \<open>n\<close> (raised by the addition of the positional encoding). In every other case, also when
  \<open>H\<close> or \<open>W\<close> is not a multiple of \<open>patch_size\<close>, it returns logits of shape \<open>[b, k]\<close>.
\<close>

theorem C5_shape_errors:
  assumes "wf_vit c p e m n l k self" and "shape4 b c' H W x" and "0 < b" and "0 < c'"
    and "0 < n"
  shows "(c' \<noteq> c \<or> H < p \<or> W < p \<or> H div p * (W div p) \<noteq> n \<longrightarrow>
            VisionTransformer_forward self training ms x = Inl RuntimeError) \<and>
         (c' = c \<and> p \<le> H \<and> p \<le> W \<and> H div p * (W div p) = n \<longrightarrow>
            (\<exists>out. VisionTransformer_forward self training ms x = Inr out \<and> shape2 b k out))"
proof (intro conjI impI)
  have p0: "0 < p" and ps: "pe_patch_size (vit_patch_embedding self) = int p"
    and wl: "wf_Linear (c * (p * p)) e (pe_projection (vit_patch_embedding self))"
    using assms(1) by (simp_all add: wf_vit_def)
  assume bad: "c' \<noteq> c \<or> H < p \<or> W < p \<or> H div p * (W div p) \<noteq> n"
  have "forward_tokens self x = Inl RuntimeError"
  proof (cases "H < p \<or> W < p")
    case True
    have "PatchEmbedding_forward (vit_patch_embedding self) x = Inl RuntimeError"
      by (rule PatchEmbedding_forward_small [OF assms(2,3,4) p0 ps True])
    then show ?thesis by (simp add: forward_tokens_def)
  next
    case False
    then have le: "p \<le> H" "p \<le> W" by simp_all
    show ?thesis
    proof (cases "c' = c")
      case False
      have "PatchEmbedding_forward (vit_patch_embedding self) x = Inl RuntimeError"
        by (rule PatchEmbedding_forward_channels [OF assms(2,3,4) p0 le ps wl False])
      then show ?thesis by (simp add: forward_tokens_def)
    next
      case True
      then have sh: "shape4 b c H W x" and c0: "0 < c" using assms(2,4) by simp_all
      have "H div p * (W div p) \<noteq> n" using bad True le by auto
      moreover have "n \<noteq> 0" using assms(5) by simp
      ultimately show ?thesis
        by (rule forward_tokens_patch_count [OF assms(1) sh assms(3) c0 le])
    qed
  qed
  then show "VisionTransformer_forward self training ms x = Inl RuntimeError"
    by (simp add: VisionTransformer_forward_def)
next
  assume ok: "c' = c \<and> p \<le> H \<and> p \<le> W \<and> H div p * (W div p) = n"
  then have sh: "shape4 b c H W x" and c0: "0 < c" using assms(2,4) by simp_all
  show "\<exists>out. VisionTransformer_forward self training ms x = Inr out \<and> shape2 b k out"
    using VisionTransformer_forward_ok [OF assms(1) sh assms(3) c0, of training ms] ok
    by blast
qed

theorem C5_witness:
  "wf_vit 1 2 2 2 4 2 2 ex_vit \<and> shape4 1 1 5 5 (ex_img 1 5 5) \<and> shape4 1 3 4 4 (ex_img 3 4 4) \<and>
   shape4 1 1 6 6 (ex_img 1 6 6) \<and>
   (\<exists>out. VisionTransformer_forward ex_vit True ex_ms (ex_img 1 5 5) = Inr out \<and> shape2 1 2 out) \<and>
   VisionTransformer_forward ex_vit True ex_ms (ex_img 3 4 4) = Inl RuntimeError \<and>
   VisionTransformer_forward ex_vit True ex_ms (ex_img 1 6 6) = Inl RuntimeError"
proof -
  have p: "(0::nat) < 1" "(0::nat) < 3" "(0::nat) < 4" by simp_all
  note a = C5_shape_errors [OF wf_ex_vit shape4_ex_img [of 1 5 5] p(1) p(1) p(3), of True ex_ms]
  note b = C5_shape_errors [OF wf_ex_vit shape4_ex_img [of 3 4 4] p(1) p(2) p(3), of True ex_ms]
  note c = C5_shape_errors [OF wf_ex_vit shape4_ex_img [of 1 6 6] p(1) p(1) p(3), of True ex_ms]
  have 1: "\<exists>out. VisionTransformer_forward ex_vit True ex_ms (ex_img 1 5 5) = Inr out \<and>
      shape2 1 2 out"
    using a by simp
  have 2: "VisionTransformer_forward ex_vit True ex_ms (ex_img 3 4 4) = Inl RuntimeError"
    using b by simp
  have 3: "VisionTransformer_forward ex_vit True ex_ms (ex_img 1 6 6) = Inl RuntimeError"
    using c by simp
  show ?thesis
    using wf_ex_vit shape4_ex_img [of 1 5 5] shape4_ex_img [of 3 4 4] shape4_ex_img [of 1 6 6]
      1 2 3
    by (intro conjI)
qed

text \<open>
  C6. The claim: construction fails whenever \<open>embed_dim\<close> is not divisible by \<open>num_heads\<close>
  and whenever \<open>image_size\<close> is not divisible by \<open>patch_size\<close>. The constructor does not
  compare \<open>img_size\<close> with \<open>patch_size\<close> beyond the floor division: with \<open>img_size = 224\<close> and
  \<open>patch_size = 15\<close> it returns a model.
\<close>

theorem C6_counterexample:
  "(224::int) mod 15 \<noteq> 0 \<and> \<not> isl (VisionTransformer_init 224 3 15 768 3072 12 12 10 ex_rnd)"
proof -
  have "\<exists>self. VisionTransformer_init 224 3 15 768 3072 12 12 10 ex_rnd = Inr self"
    by (rule VisionTransformer_init_ok) simp_all
  then show ?thesis by auto
qed

text \<open>
  C6, amended. (1) Whenever the constructor returns a model, \<open>patch_size \<noteq> 0\<close> and, if a
  layer was requested, \<open>num_heads \<noteq> 0\<close> divides \<open>embed_dim\<close>: no model is constructed with an
  \<open>embed_dim\<close> that \<open>num_heads\<close> does not divide; the positional encoding of the model has
  \<open>(img_size div patch_size)\<^sup>2 + 1\<close> positions. (2) The \<open>AssertionError\<close> is raised only when a
  layer is requested and \<open>embed_dim mod num_heads \<noteq> 0\<close>. (3) \<open>img_size\<close> enters the constructor
  only through \<open>img_size div patch_size\<close>: two image sizes with the same quotient give the same
  result, whether \<open>patch_size\<close> divides them or not. (4) For a configuration with sizes up to
  those of the notebook, the constructor raises the \<open>AssertionError\<close> when
  \<open>embed_dim mod num_heads \<noteq> 0\<close> and returns a model otherwise.
\<close>

theorem C6_construction:
  "(\<forall>self. VisionTransformer_init img_size in_channels patch_size embed_dim mlp_dim num_heads
      num_layers num_classes rnd = Inr self \<longrightarrow>
      patch_size \<noteq> 0 \<and> (0 < num_layers \<longrightarrow> num_heads \<noteq> 0 \<and> embed_dim mod num_heads = 0) \<and>
      shape3 1 (nat ((img_size div patch_size) * (img_size div patch_size)) + 1) (nat embed_dim)
        (pos_position_encoding (vit_position_encoding self))) \<and>
   (VisionTransformer_init img_size in_channels patch_size embed_dim mlp_dim num_heads num_layers
      num_classes rnd = Inl AssertionError \<longrightarrow>
      0 < num_layers \<and> num_heads \<noteq> 0 \<and> embed_dim mod num_heads \<noteq> 0) \<and>
   (\<forall>img_size'. img_size' div patch_size = img_size div patch_size \<longrightarrow>
      VisionTransformer_init img_size' in_channels patch_size embed_dim mlp_dim num_heads
        num_layers num_classes rnd =
      VisionTransformer_init img_size in_channels patch_size embed_dim mlp_dim num_heads
        num_layers num_classes rnd) \<and>
   (notebook_sized img_size in_channels patch_size embed_dim mlp_dim num_heads num_layers
      num_classes \<longrightarrow>
      (embed_dim mod num_heads \<noteq> 0 \<longrightarrow>
         VisionTransformer_init img_size in_channels patch_size embed_dim mlp_dim num_heads
           num_layers num_classes rnd = Inl AssertionError) \<and>
      (embed_dim mod num_heads = 0 \<longrightarrow>
         (\<exists>self. VisionTransformer_init img_size in_channels patch_size embed_dim mlp_dim
            num_heads num_layers num_classes rnd = Inr self)))"
proof -
  have 1: "\<forall>self. VisionTransformer_init img_size in_channels patch_size embed_dim mlp_dim
      num_heads num_layers num_classes rnd = Inr self \<longrightarrow>
      patch_size \<noteq> 0 \<and> (0 < num_layers \<longrightarrow> num_heads \<noteq> 0 \<and> embed_dim mod num_heads = 0) \<and>
      shape3 1 (nat ((img_size div patch_size) * (img_size div patch_size)) + 1) (nat embed_dim)
        (pos_position_encoding (vit_position_encoding self))"
  proof (intro allI impI)
    fix self
    assume init: "VisionTransformer_init img_size in_channels patch_size embed_dim mlp_dim
      num_heads num_layers num_classes rnd = Inr self"
    have "shape3 1 (nat ((img_size div patch_size) * (img_size div patch_size)) + 1)
        (nat embed_dim) (pos_position_encoding (vit_position_encoding self))"
      using init
      by (auto simp: VisionTransformer_init_def andthen_eq_Inr nat_add_distrib
          split: if_splits dest!: Position_Encoding_init_Inr)
    then show "patch_size \<noteq> 0 \<and>
        (0 < num_layers \<longrightarrow> num_heads \<noteq> 0 \<and> embed_dim mod num_heads = 0) \<and>
        shape3 1 (nat ((img_size div patch_size) * (img_size div patch_size)) + 1)
          (nat embed_dim) (pos_position_encoding (vit_position_encoding self))"
      using VisionTransformer_init_Inr [OF init] by simp
  qed
  have 2: "VisionTransformer_init img_size in_channels patch_size embed_dim mlp_dim num_heads
      num_layers num_classes rnd = Inl AssertionError \<longrightarrow>
      0 < num_layers \<and> num_heads \<noteq> 0 \<and> embed_dim mod num_heads \<noteq> 0"
    by (simp add: VisionTransformer_init_Assertion)
  have 3: "\<forall>img_size'. img_size' div patch_size = img_size div patch_size \<longrightarrow>
      VisionTransformer_init img_size' in_channels patch_size embed_dim mlp_dim num_heads
        num_layers num_classes rnd =
      VisionTransformer_init img_size in_channels patch_size embed_dim mlp_dim num_heads
        num_layers num_classes rnd"
    by (simp add: VisionTransformer_init_def)
  have 4: "notebook_sized img_size in_channels patch_size embed_dim mlp_dim num_heads num_layers
      num_classes \<longrightarrow>
      (embed_dim mod num_heads \<noteq> 0 \<longrightarrow>
         VisionTransformer_init img_size in_channels patch_size embed_dim mlp_dim num_heads
           num_layers num_classes rnd = Inl AssertionError) \<and>
      (embed_dim mod num_heads = 0 \<longrightarrow>
         (\<exists>self. VisionTransformer_init img_size in_channels patch_size embed_dim mlp_dim
            num_heads num_layers num_classes rnd = Inr self))"
  proof (intro impI conjI)
    assume nb: "notebook_sized img_size in_channels patch_size embed_dim mlp_dim num_heads
      num_layers num_classes"
    {
      assume "embed_dim mod num_heads \<noteq> 0"
      then show "VisionTransformer_init img_size in_channels patch_size embed_dim mlp_dim
          num_heads num_layers num_classes rnd = Inl AssertionError"
        using nb by (simp add: VisionTransformer_init_Assertion notebook_sized_def)
    }
    {
      assume "embed_dim mod num_heads = 0"
      then show "\<exists>self. VisionTransformer_init img_size in_channels patch_size embed_dim mlp_dim
          num_heads num_layers num_classes rnd = Inr self"
        using nb by (intro VisionTransformer_init_ok) (simp_all add: notebook_sized_def)
    }
  qed
  show ?thesis using 1 2 3 4 by (intro conjI)
qed

theorem C6_witness:
  "VisionTransformer_init 4 1 2 2 2 1 2 2 ex_rnd = Inr ex_vit \<and>
   shape3 1 (nat ((4 div 2) * (4 div 2)) + 1) (nat 2)
     (pos_position_encoding (vit_position_encoding ex_vit)) \<and>
   notebook_sized 224 3 16 100 3072 7 12 10 \<and>
   VisionTransformer_init 224 3 16 100 3072 7 12 10 ex_rnd = Inl AssertionError \<and>
   notebook_sized 224 3 16 768 3072 12 12 10 \<and>
   (\<exists>self. VisionTransformer_init 224 3 16 768 3072 12 12 10 ex_rnd = Inr self) \<and>
   notebook_sized 224 3 15 768 3072 12 12 10 \<and>
   (\<exists>self. VisionTransformer_init 224 3 15 768 3072 12 12 10 ex_rnd = Inr self) \<and>
   (210::int) div 15 = 224 div 15 \<and>
   VisionTransformer_init 210 3 15 768 3072 12 12 10 ex_rnd =
     VisionTransformer_init 224 3 15 768 3072 12 12 10 ex_rnd"
proof -
  note a = C6_construction [of 224 3 16 100 3072 7 12 10 ex_rnd]
  note b = C6_construction [of 224 3 16 768 3072 12 12 10 ex_rnd]
  note c = C6_construction [of 224 3 15 768 3072 12 12 10 ex_rnd]
  note d = C6_construction [of 4 1 2 2 2 1 2 2 ex_rnd]
  have n1: "notebook_sized 224 3 16 100 3072 7 12 10"
    and n2: "notebook_sized 224 3 16 768 3072 12 12 10"
    and n3: "notebook_sized 224 3 15 768 3072 12 12 10"
    by (simp_all add: notebook_sized_def)
  have q: "(210::int) div 15 = 224 div 15" by simp
  have 1: "VisionTransformer_init 224 3 16 100 3072 7 12 10 ex_rnd = Inl AssertionError"
    using conjunct2 [OF conjunct2 [OF conjunct2 [OF a]]] n1 by simp
  have 2: "\<exists>self. VisionTransformer_init 224 3 16 768 3072 12 12 10 ex_rnd = Inr self"
    using conjunct2 [OF conjunct2 [OF conjunct2 [OF b]]] n2 by simp
  have 3: "\<exists>self. VisionTransformer_init 224 3 15 768 3072 12 12 10 ex_rnd = Inr self"
    using conjunct2 [OF conjunct2 [OF conjunct2 [OF c]]] n3 by simp
  have 4: "shape3 1 (nat ((4 div 2) * (4 div 2)) + 1) (nat 2)
     (pos_position_encoding (vit_position_encoding ex_vit))"
    using conjunct1 [OF d, rule_format, OF ex_vit_init] by (elim conjE)
  have 5: "VisionTransformer_init 210 3 15 768 3072 12 12 10 ex_rnd =
     VisionTransformer_init 224 3 15 768 3072 12 12 10 ex_rnd"
    using conjunct1 [OF conjunct2 [OF conjunct2 [OF c]], rule_format, OF q] .
  show ?thesis using ex_vit_init 4 n1 1 n2 2 n3 3 q 5 by (intro conjI)
qed



text \<open>
  C8. For an encoder block with the parameter shapes of \<open>embed_dim = e\<close> and \<open>mlp_dim = m\<close>
  and an input of shape \<open>[b, s, e]\<close> with \<open>b, s \<ge> 1\<close>: self-attention returns some
  \<open>attn_out\<close>; the first sub-layer is \<open>x1 = LayerNorm1 (x + Dropout1 attn_out)\<close>; the
  feed-forward part is \<open>ff_out = Linear2 (Dropout (GELU (Linear1 x1)))\<close>, where \<open>Linear1 x1\<close>
  has width \<open>m\<close> and \<open>ff_out\<close> has width \<open>e\<close>; and \<open>forward\<close> returns
  \<open>LayerNorm2 (x1 + Dropout2 ff_out)\<close>. Both normalisations are applied to the residual sum.
\<close>

theorem C8_encoder_block_post_norm:
  assumes "wf_enc e m self" and "shape3 b s e x" and "0 < b" and "0 < s"
  shows "\<exists>attn_out. MultiHeadSelfAttention_forward (enc_self_attn self) x = Inr attn_out \<and>
    (let x1 = layer_norm (enc_norm1 self)
                (plus3 x (Dropout_forward (enc_dropout1 self) training (keep_dropout1 ms) attn_out));
         h = linear (enc_linear1 self) x1;
         ff_out = linear (enc_linear2 self)
                    (Dropout_forward (enc_dropout self) training (keep_dropout ms) (gelu h));
         y = layer_norm (enc_norm2 self)
               (plus3 x1 (Dropout_forward (enc_dropout2 self) training (keep_dropout2 ms) ff_out))
     in shape3 b s m h \<and> shape3 b s e ff_out \<and> shape3 b s e y \<and>
        TransformerEncoder_forward self training ms x = Inr y)"
  using assms by (rule TransformerEncoder_forward_ok)

theorem C8_witness:
  "wf_enc 1 1 ex_enc \<and> shape3 1 1 1 [[[2::real]]] \<and> (0::nat) < 1 \<and>
   (\<exists>attn_out. MultiHeadSelfAttention_forward (enc_self_attn ex_enc) [[[2]]] = Inr attn_out \<and>
    (let x1 = layer_norm (enc_norm1 ex_enc)
                (plus3 [[[2]]] (Dropout_forward (enc_dropout1 ex_enc) True (keep_dropout1 ex_masks)
                   attn_out));
         h = linear (enc_linear1 ex_enc) x1;
         ff_out = linear (enc_linear2 ex_enc)
                    (Dropout_forward (enc_dropout ex_enc) True (keep_dropout ex_masks) (gelu h));
         y = layer_norm (enc_norm2 ex_enc)
               (plus3 x1 (Dropout_forward (enc_dropout2 ex_enc) True (keep_dropout2 ex_masks)
                  ff_out))
     in shape3 1 1 1 h \<and> shape3 1 1 1 ff_out \<and> shape3 1 1 1 y \<and>
        TransformerEncoder_forward ex_enc True ex_masks [[[2]]] = Inr y))"
  using C8_encoder_block_post_norm [OF wf_ex_enc shape3_single, of 2 True ex_masks]
    wf_ex_enc shape3_single [of 2]
  by simp

text \<open>
  C9. Let \<open>pe\<close> be a patch embedding with \<open>patch_size = p\<close> and a projection from
  \<open>c * p * p\<close> to \<open>e\<close> values, and \<open>x\<close> a non-empty batch of shape \<open>[b, c, H, W]\<close> with \<open>H\<close> and
  \<open>W\<close> positive multiples of \<open>p\<close>. Then \<open>PatchEmbedding.forward\<close> returns a tensor \<open>y\<close> of
  shape \<open>[b, (H div p) * (W div p), e]\<close>; the patch in row \<open>i\<close> and column \<open>j\<close> of the grid is
  at position \<open>i * (W div p) + j\<close>, and the vector there is \<open>W \<cdot> flatten(patch) + bias\<close>, where
  the flattened patch has \<open>c * p * p\<close> entries and its entry for channel \<open>ch\<close> and offset
  \<open>(u, v)\<close> is the pixel \<open>(i * p + u, j * p + v)\<close> of that channel. An encoder block with the
  parameter shapes of \<open>embed_dim = e'\<close> maps a tensor of shape \<open>[b', s, e']\<close> (\<open>b', s \<ge> 1\<close>) to
  a tensor of the same shape. A model with \<open>in_channels = c\<close>, \<open>patch_size = p\<close>,
  \<open>(H div p) * (W div p)\<close> patches and \<open>k\<close> classes maps \<open>x\<close> to a tensor of shape \<open>[b, k]\<close>.
\<close>

theorem C9_shapes_and_patch_order:
  assumes "pe_patch_size pe = int p" and "wf_Linear (c * (p * p)) e (pe_projection pe)"
    and "shape4 b c H W x" and "0 < b" and "0 < c" and "0 < p" and "0 < H" and "0 < W"
    and "H mod p = 0" and "W mod p = 0"
    and "wf_enc e' m enc" and "shape3 b' s e' t" and "0 < b'" and "0 < s"
    and "wf_vit c p e2 m2 (H div p * (W div p)) l k self"
  shows "(\<exists>y. PatchEmbedding_forward pe x = Inr y \<and> shape3 b (H div p * (W div p)) e y \<and>
           (\<forall>bi<b. \<forall>i<H div p. \<forall>j<W div p.
              y ! bi ! (i * (W div p) + j) = affine (pe_projection pe) (flatten_patch p (x ! bi) i j) \<and>
              length (flatten_patch p (x ! bi) i j) = c * (p * p) \<and>
              (\<forall>ch<c. \<forall>u<p. \<forall>v<p.
                 flatten_patch p (x ! bi) i j ! (ch * (p * p) + (u * p + v))
                   = x ! bi ! ch ! (i * p + u) ! (j * p + v)))) \<and>
         (\<exists>t'. TransformerEncoder_forward enc training ms t = Inr t' \<and> shape3 b' s e' t') \<and>
         (\<exists>out. VisionTransformer_forward self training msf x = Inr out \<and> shape2 b k out)"
proof (intro conjI)
  have le: "p \<le> H" "p \<le> W"
    using assms(6-10) by (auto simp: mod_eq_0_iff_dvd dvd_imp_le)
  have lx: "length x = b" and lc: "\<forall>img\<in>set x. length img = c"
    using assms(3) by (auto simp: shape4_iff shape3_iff)
  let ?y = "patch_embed (pe_projection pe) p (H div p) (W div p) x"
  have 1: "PatchEmbedding_forward pe x = Inr ?y"
    by (rule PatchEmbedding_forward_embed [OF assms(3,4,5,6) le assms(1,2)])
  have 2: "shape3 b (H div p * (W div p)) e ?y"
    by (rule shape3_embed [OF assms(2) lx])
  have 3: "\<forall>bi<b. \<forall>i<H div p. \<forall>j<W div p.
      ?y ! bi ! (i * (W div p) + j) = affine (pe_projection pe) (flatten_patch p (x ! bi) i j) \<and>
      length (flatten_patch p (x ! bi) i j) = c * (p * p) \<and>
      (\<forall>ch<c. \<forall>u<p. \<forall>v<p.
         flatten_patch p (x ! bi) i j ! (ch * (p * p) + (u * p + v))
           = x ! bi ! ch ! (i * p + u) ! (j * p + v))"
  proof (intro allI impI conjI)
    fix bi i j
    assume b: "bi < b" and i: "i < H div p" and j: "j < W div p"
    then have len: "length (x ! bi) = c" using lx lc by simp
    show "?y ! bi ! (i * (W div p) + j) = affine (pe_projection pe) (flatten_patch p (x ! bi) i j)"
      using b i j lx by (simp add: nth_patch_embed)
    show "length (flatten_patch p (x ! bi) i j) = c * (p * p)"
      by (simp add: length_flatten_patch len)
    fix ch u v
    assume "ch < c" "u < p" "v < p"
    then show "flatten_patch p (x ! bi) i j ! (ch * (p * p) + (u * p + v))
        = x ! bi ! ch ! (i * p + u) ! (j * p + v)"
      using len by (simp add: nth_flatten_patch)
  qed
  show "\<exists>y. PatchEmbedding_forward pe x = Inr y \<and> shape3 b (H div p * (W div p)) e y \<and>
      (\<forall>bi<b. \<forall>i<H div p. \<forall>j<W div p.
         y ! bi ! (i * (W div p) + j) = affine (pe_projection pe) (flatten_patch p (x ! bi) i j) \<and>
         length (flatten_patch p (x ! bi) i j) = c * (p * p) \<and>
         (\<forall>ch<c. \<forall>u<p. \<forall>v<p.
            flatten_patch p (x ! bi) i j ! (ch * (p * p) + (u * p + v))
              = x ! bi ! ch ! (i * p + u) ! (j * p + v)))"
    using 1 2 3 by blast
  show "\<exists>t'. TransformerEncoder_forward enc training ms t = Inr t' \<and> shape3 b' s e' t'"
    by (rule TransformerEncoder_forward_shape [OF assms(11,12,13,14)])
  show "\<exists>out. VisionTransformer_forward self training msf x = Inr out \<and> shape2 b k out"
    using VisionTransformer_forward_ok [OF assms(15,3,4,5) le, of training msf] by blast
qed

theorem C9_witness:
  "pe_patch_size (vit_patch_embedding ex_vit) = int 2 \<and>
   wf_Linear (1 * (2 * 2)) 2 (pe_projection (vit_patch_embedding ex_vit)) \<and>
   shape4 1 1 4 4 (ex_img 1 4 4) \<and> (4::nat) mod 2 = 0 \<and>
   wf_enc 1 1 ex_enc \<and> shape3 1 1 1 [[[2::real]]] \<and>
   wf_vit 1 2 2 2 (4 div 2 * (4 div 2)) 2 2 ex_vit \<and>
   (\<exists>y. PatchEmbedding_forward (vit_patch_embedding ex_vit) (ex_img 1 4 4) = Inr y \<and>
        shape3 1 (4 div 2 * (4 div 2)) 2 y \<and>
        (\<forall>bi<1. \<forall>i<4 div 2. \<forall>j<4 div 2.
           y ! bi ! (i * (4 div 2) + j) =
             affine (pe_projection (vit_patch_embedding ex_vit))
               (flatten_patch 2 (ex_img 1 4 4 ! bi) i j) \<and>
           length (flatten_patch 2 (ex_img 1 4 4 ! bi) i j) = 1 * (2 * 2) \<and>
           (\<forall>ch<1. \<forall>u<2. \<forall>v<2.
              flatten_patch 2 (ex_img 1 4 4 ! bi) i j ! (ch * (2 * 2) + (u * 2 + v))
                = ex_img 1 4 4 ! bi ! ch ! (i * 2 + u) ! (j * 2 + v)))) \<and>
   (\<exists>t'. TransformerEncoder_forward ex_enc True ex_masks [[[2]]] = Inr t' \<and> shape3 1 1 1 t') \<and>
   (\<exists>out. VisionTransformer_forward ex_vit True ex_ms (ex_img 1 4 4) = Inr out \<and> shape2 1 2 out)"
proof -
  have ps: "pe_patch_size (vit_patch_embedding ex_vit) = int 2"
    and wl: "wf_Linear (1 * (2 * 2)) 2 (pe_projection (vit_patch_embedding ex_vit))"
    using wf_ex_vit by (simp_all add: wf_vit_def)
  have wf: "wf_vit 1 2 2 2 (4 div 2 * (4 div 2)) 2 2 ex_vit"
    using wf_ex_vit by simp
  have p: "(0::nat) < 1" "(0::nat) < 2" "(0::nat) < 4" "(4::nat) mod 2 = 0" by simp_all
  note c = C9_shapes_and_patch_order [where training = True and ms = ex_masks and msf = ex_ms,
        OF ps wl shape4_ex_img p(1) p(1) p(2) p(3) p(3) p(4) p(4)
        wf_ex_enc shape3_single [of 2] p(1) p(1) wf]
  show ?thesis
    using ps wl shape4_ex_img [of 1 4 4] p(4) wf_ex_enc shape3_single [of "2::real"] wf
      conjunct1 [OF c] conjunct1 [OF conjunct2 [OF c]] conjunct2 [OF conjunct2 [OF c]]
    by (intro conjI)
qed

text \<open>
  C10. Whenever the constructor of \<open>VisionTransformer\<close> returns a model, whatever the eight
  configuration values and the random draws, the model has \<open>num_layers\<close> encoder blocks (none
  for a negative \<open>num_layers\<close>) and the three dropout layers of every block have the
  probability \<open>dropout_default = 1/10\<close>.
\<close>

theorem C10_default_dropout:
  assumes "VisionTransformer_init img_size in_channels patch_size embed_dim mlp_dim num_heads
      num_layers num_classes rnd = Inr self"
  shows "length (vit_transformer_encoders self) = nat num_layers \<and>
    list_all (\<lambda>enc. dropout_p (enc_dropout enc) = dropout_default \<and>
                     dropout_p (enc_dropout1 enc) = dropout_default \<and>
                     dropout_p (enc_dropout2 enc) = dropout_default)
      (vit_transformer_encoders self) \<and>
    dropout_default = 1 / 10"
proof -
  have "default_dropouts = (\<lambda>enc. dropout_p (enc_dropout enc) = dropout_default \<and>
                     dropout_p (enc_dropout1 enc) = dropout_default \<and>
                     dropout_p (enc_dropout2 enc) = dropout_default)"
    by (simp add: fun_eq_iff default_dropouts_def dropout_default_def)
  moreover have "dropout_default = 1 / 10" by (simp add: dropout_default_def)
  ultimately show ?thesis
    using VisionTransformer_init_Inr [OF assms] by simp
qed

theorem C10_witness:
  "VisionTransformer_init 4 1 2 2 2 1 2 2 ex_rnd = Inr ex_vit \<and>
   length (vit_transformer_encoders ex_vit) = nat 2 \<and>
   list_all (\<lambda>enc. dropout_p (enc_dropout enc) = dropout_default \<and>
                    dropout_p (enc_dropout1 enc) = dropout_default \<and>
                    dropout_p (enc_dropout2 enc) = dropout_default)
     (vit_transformer_encoders ex_vit) \<and>
   dropout_default = 1 / 10"
  using C10_default_dropout [OF ex_vit_init] ex_vit_init by (intro conjI) simp_all

end
